theory Spec2Isabelle
  imports Main "HOL-Library.Code_Target_Nat"
begin

section \<open>JavaScript strings and numbers\<close>

text \<open>
  A JavaScript string is a sequence of UTF-16 code units. The embedding covers the strings
  whose code units are below 256 (ASCII and Latin-1): one \<open>char\<close> stands for one code
  unit, and \<open>code c\<close> is its number. The character classes below are the ones of
  ECMAScript restricted to that range.
\<close>

definition code :: "char \<Rightarrow> nat" where
  "code c = of_char c"

definition isDigit :: "char \<Rightarrow> bool" where
  \<comment> \<open>the class \<open>\d\<close>\<close>
  "isDigit c = (48 \<le> code c \<and> code c \<le> 57)"

definition isWord :: "char \<Rightarrow> bool" where
  \<comment> \<open>the class \<open>\w\<close>: letters, digits and the underscore\<close>
  "isWord c = ((65 \<le> code c \<and> code c \<le> 90) \<or> (97 \<le> code c \<and> code c \<le> 122)
                \<or> isDigit c \<or> code c = 95)"

definition isSpace :: "char \<Rightarrow> bool" where
  \<comment> \<open>white space and line terminators: what \<open>trim\<close> strips and \<open>\s\<close> matches\<close>
  "isSpace c = (code c \<in> {9, 10, 11, 12, 13, 32, 160})"

definition isLineTerminator :: "char \<Rightarrow> bool" where
  \<comment> \<open>what the regular expression \<open>.\<close> refuses\<close>
  "isLineTerminator c = (code c = 10 \<or> code c = 13)"

definition trim :: "string \<Rightarrow> string" where
  "trim s = rev (dropWhile isSpace (rev (dropWhile isSpace s)))"

definition isUpper :: "char \<Rightarrow> bool" where
  \<comment> \<open>the characters \<open>toLowerCase\<close> changes: \<open>A-Z\<close> and the Latin-1 capitals (not \<open>0xD7\<close>)\<close>
  "isUpper c = ((65 \<le> code c \<and> code c \<le> 90) \<or> (192 \<le> code c \<and> code c \<le> 222 \<and> code c \<noteq> 215))"

definition lowerChar :: "char \<Rightarrow> char" where
  "lowerChar c = (if isUpper c then char_of (code c + 32) else c)"

definition toLowerCase :: "string \<Rightarrow> string" where
  "toLowerCase s = map lowerChar s"

definition canonicalize :: "char \<Rightarrow> nat" where
  \<comment> \<open>the code unit a character is compared by under the flag \<open>i\<close> (its upper case, when that
      is a single code unit): \<open>0xFF\<close> and \<open>0xB5\<close> have theirs outside Latin-1\<close>
  "canonicalize c =
     (if (97 \<le> code c \<and> code c \<le> 122) \<or> (224 \<le> code c \<and> code c \<le> 254 \<and> code c \<noteq> 247)
      then code c - 32
      else if code c = 255 then 376
      else if code c = 181 then 924
      else code c)"

definition includes_js :: "string \<Rightarrow> string \<Rightarrow> bool" where
  \<comment> \<open>\<open>s.includes(t)\<close>\<close>
  "includes_js s t = (\<exists>i \<in> set [0..<Suc (length s)]. take (length t) (drop i s) = t)"

fun split_js :: "char \<Rightarrow> string \<Rightarrow> string list" where
  \<comment> \<open>\<open>s.split(d)\<close> for a one-character separator: never empty\<close>
  "split_js d [] = [[]]"
| "split_js d (c # cs) =
     (if c = d then [] # split_js d cs
      else (case split_js d cs of [] \<Rightarrow> [[c]] | p # ps \<Rightarrow> (c # p) # ps))"

text \<open>
  Numbers. The values the version code computes with are non-negative integers and NaN.
  \<open>Number(s)\<close> and \<open>parseInt(s, 10)\<close> are modelled exactly where the result is NaN or a
  safe integer (below \<open>2^53\<close>, where adding one is exact and the number prints as its
  decimal digits). On the other numeric literals (a sign, an exponent, a radix prefix,
  \<open>Infinity\<close>, a fraction, or an integer beyond the safe range) the model gives \<open>None\<close>:
  the embedding says nothing about them.
\<close>

datatype jsnum = Num nat | NaN

definition MAX_SAFE_INTEGER :: nat where
  "MAX_SAFE_INTEGER = 2 ^ 53 - 1"

definition digitsValue :: "string \<Rightarrow> nat" where
  "digitsValue ds = foldl (\<lambda>a c. 10 * a + (code c - 48)) 0 ds"

definition isDigits :: "string \<Rightarrow> bool" where
  "isDigits s = (s \<noteq> [] \<and> list_all isDigit s)"

definition isExponentPart :: "string \<Rightarrow> bool" where
  "isExponentPart s =
     (case s of
        [] \<Rightarrow> False
      | e # r \<Rightarrow> (e = CHR ''e'' \<or> e = CHR ''E'') \<and>
          (case r of
             [] \<Rightarrow> False
           | c # r' \<Rightarrow> if c = CHR ''+'' \<or> c = CHR ''-'' then isDigits r' else isDigits r))"

definition isUnsignedDecimal :: "string \<Rightarrow> bool" where
  \<comment> \<open>StrUnsignedDecimalLiteral\<close>
  "isUnsignedDecimal s =
     (s = ''Infinity'' \<or>
      (let ds = takeWhile isDigit s; r = dropWhile isDigit s in
       case r of
         [] \<Rightarrow> ds \<noteq> []
       | c # r' \<Rightarrow>
           if c = CHR ''.'' then
             (let fs = takeWhile isDigit r'; r2 = dropWhile isDigit r' in
              (ds \<noteq> [] \<or> fs \<noteq> []) \<and> (r2 = [] \<or> isExponentPart r2))
           else ds \<noteq> [] \<and> isExponentPart r))"

definition isRadixLiteral :: "string \<Rightarrow> bool" where
  \<comment> \<open>NonDecimalIntegerLiteral: \<open>0b\<close>, \<open>0o\<close>, \<open>0x\<close>\<close>
  "isRadixLiteral s =
     (case s of
        z # p # ds \<Rightarrow> z = CHR ''0'' \<and> ds \<noteq> [] \<and>
          ((p \<in> {CHR ''b'', CHR ''B''} \<and> list_all (\<lambda>c. c \<in> {CHR ''0'', CHR ''1''}) ds) \<or>
           (p \<in> {CHR ''o'', CHR ''O''} \<and> list_all (\<lambda>c. 48 \<le> code c \<and> code c \<le> 55) ds) \<or>
           (p \<in> {CHR ''x'', CHR ''X''} \<and>
              list_all (\<lambda>c. isDigit c \<or> (65 \<le> code c \<and> code c \<le> 70) \<or> (97 \<le> code c \<and> code c \<le> 102)) ds))
      | _ \<Rightarrow> False)"

definition isNumericLiteral :: "string \<Rightarrow> bool" where
  \<comment> \<open>StrNumericLiteral, on a trimmed string\<close>
  "isNumericLiteral s =
     (isRadixLiteral s \<or>
      (case s of
         [] \<Rightarrow> False
       | c # r \<Rightarrow> if c = CHR ''+'' \<or> c = CHR ''-'' then isUnsignedDecimal r else isUnsignedDecimal s))"

definition Number_js :: "string \<Rightarrow> jsnum option" where
  "Number_js s =
     (let t = trim s in
      if t = [] then Some (Num 0)
      else if isDigits t then
        (if digitsValue t \<le> MAX_SAFE_INTEGER then Some (Num (digitsValue t)) else None)
      else if isNumericLiteral t then None
      else Some NaN)"

definition parseInt10 :: "string \<Rightarrow> jsnum option" where
  \<comment> \<open>\<open>parseInt(s, 10)\<close> on a string of decimal digits, the only use the code makes of it\<close>
  "parseInt10 ds = (if digitsValue ds \<le> MAX_SAFE_INTEGER then Some (Num (digitsValue ds)) else None)"

fun showNat :: "nat \<Rightarrow> string" where
  "showNat n = (if n < 10 then [char_of (48 + n)] else showNat (n div 10) @ [char_of (48 + n mod 10)])"

declare showNat.simps [simp del]

fun showNum :: "jsnum \<Rightarrow> string" where
  \<comment> \<open>the number in a template literal\<close>
  "showNum (Num n) = showNat n"
| "showNum NaN = ''NaN''"

fun succNum :: "jsnum \<Rightarrow> jsnum" where
  \<comment> \<open>\<open>x + 1\<close>\<close>
  "succNum (Num n) = Num (n + 1)"
| "succNum NaN = NaN"

section \<open>Regular expressions\<close>

text \<open>
  A pattern is a function from the rest of the input to the list of the rests it can leave,
  in the order the backtracking matcher of ECMAScript tries them (a greedy quantifier tries
  the longest match first). A pattern matches where that list is not empty.
\<close>

type_synonym pattern = "string \<Rightarrow> string list"

definition cls :: "(char \<Rightarrow> bool) \<Rightarrow> pattern" where
  "cls P s = (case s of [] \<Rightarrow> [] | c # r \<Rightarrow> if P c then [r] else [])"

definition lit :: "char \<Rightarrow> pattern" where
  "lit a = cls (\<lambda>c. c = a)"

definition lit_i :: "char \<Rightarrow> pattern" where
  \<comment> \<open>a literal character under the flag \<open>i\<close>\<close>
  "lit_i a = cls (\<lambda>c. canonicalize c = canonicalize a)"

fun star :: "(char \<Rightarrow> bool) \<Rightarrow> pattern" where
  "star P [] = [[]]"
| "star P (c # r) = (if P c then star P r @ [c # r] else [c # r])"

definition plus :: "(char \<Rightarrow> bool) \<Rightarrow> pattern" where
  "plus P s = (case s of [] \<Rightarrow> [] | c # r \<Rightarrow> if P c then star P r else [])"

definition seq :: "pattern \<Rightarrow> pattern \<Rightarrow> pattern" where
  "seq p q s = concat (map q (p s))"

definition opt :: "pattern \<Rightarrow> pattern" where
  "opt p s = p s @ [s]"

definition eps :: pattern where
  "eps s = [s]"

definition str_i :: "string \<Rightarrow> pattern" where
  \<comment> \<open>a literal string under the flag \<open>i\<close>\<close>
  "str_i t = foldr (\<lambda>a p. seq (lit_i a) p) t eps"

definition eos :: pattern where
  \<comment> \<open>\<open>$\<close> without the flag \<open>m\<close>\<close>
  "eos s = (if s = [] then [[]] else [])"

definition matchesAt :: "pattern \<Rightarrow> string \<Rightarrow> bool" where
  "matchesAt p s = (p s \<noteq> [])"

definition matchesAnywhere :: "pattern \<Rightarrow> string \<Rightarrow> bool" where
  \<comment> \<open>an unanchored pattern is tried at every index\<close>
  "matchesAnywhere p s = (\<exists>i \<in> set [0..<Suc (length s)]. matchesAt p (drop i s))"

section \<open>version.js\<close>

datatype jsval = Null | Undefined | NonString | Str string

text \<open>
  \<open>preMatch\<close> is \<open>currentVersion.match(new RegExp(`^(.+)-${escaped}\\.(\\d+)$`, 'i'))\<close>:
  the escaping makes every character of the identifier a literal. The result is the pair
  of the two groups of the first match in backtracking order.
\<close>

definition preMatch :: "string \<Rightarrow> string \<Rightarrow> (string \<times> string) option" where
  "preMatch currentVersion preIdNorm =
     (case concat (map (\<lambda>r1.
             concat (map (\<lambda>r2.
                 map (\<lambda>r3. (take (length currentVersion - length r1) currentVersion,
                             take (length r2 - length r3) r2))
                     (concat (map eos (plus isDigit r2))))
               (seq (lit CHR ''-'') (seq (str_i preIdNorm) (lit CHR ''.'')) r1)))
           (plus (\<lambda>c. \<not> isLineTerminator c) currentVersion)) of
        [] \<Rightarrow> None
      | m # _ \<Rightarrow> Some m)"

definition nth_default0 :: "jsnum option list \<Rightarrow> nat \<Rightarrow> jsnum option" where
  \<comment> \<open>a destructuring default: \<open>[major = 0, ...] = parts\<close>\<close>
  "nth_default0 parts i = (if i < length parts then parts ! i else Some (Num 0))"

definition showParts :: "jsnum option list \<Rightarrow> string option" where
  \<comment> \<open>the numbers joined by dots; \<open>None\<close> where one of them is outside the model\<close>
  "showParts ns =
     (if list_all (\<lambda>n. n \<noteq> None) ns
      then Some (concat (map (\<lambda>(i, n). (if i = 0 then [] else ''.'') @ showNum (the n)) (enumerate 0 ns)))
      else None)"

definition bumpBase :: "string \<Rightarrow> string \<Rightarrow> string option" where
  \<comment> \<open>the \<open>switch\<close> of \<open>increaseVersion\<close>\<close>
  "bumpBase currentVersion type =
     (let parts = map Number_js (split_js CHR ''.'' currentVersion);
          major = nth_default0 parts 0;
          minor = nth_default0 parts 1;
          patch = nth_default0 parts 2;
          build = nth_default0 parts 3;
          zero = Some (Num 0);
          one = Some (Num 1)
      in
      if type = ''major'' then showParts [map_option succNum major, zero, zero]
      else if type = ''minor'' then showParts [major, map_option succNum minor, zero]
      else if type = ''patch'' then showParts [major, minor, map_option succNum patch]
      else if type = ''hotfix'' \<or> type = ''build'' then
        (if length parts = 3 then showParts [major, minor, patch, one]
         else showParts [major, minor, patch, map_option succNum build])
      else showParts [major, minor, map_option succNum patch])"

definition increaseVersion :: "string \<Rightarrow> string \<Rightarrow> jsval \<Rightarrow> string option" where
  "increaseVersion currentVersion type preId =
     (let base = bumpBase currentVersion type in
      case preId of
        Str p \<Rightarrow>
          if p = [] \<or> trim p = [] then base
          else
            (let preIdNorm = toLowerCase (trim p) in
             case preMatch currentVersion preIdNorm of
               Some (g1, g2) \<Rightarrow>
                 map_option (\<lambda>num. g1 @ ''-'' @ preIdNorm @ ''.'' @ showNum (succNum num)) (parseInt10 g2)
             | None \<Rightarrow> map_option (\<lambda>b. b @ ''-'' @ preIdNorm @ ''.0'') base)
      | _ \<Rightarrow> base)"

text \<open>
  \<open>suggestBumpFromCommits\<close>. The three regular expressions, each with the flag \<open>i\<close>:
  \<^verbatim>\<open>/^(\w+)(\([^)]*\))?!:?\s|BREAKING CHANGE:/i\<close>,
  \<^verbatim>\<open>/^feat(\([^)]*\))?!?:\s/i\<close> and \<^verbatim>\<open>/^fix(\([^)]*\))?!?:\s/i\<close>.
\<close>

definition scope :: pattern where
  \<comment> \<open>\<^verbatim>\<open>\([^)]*\)\<close>\<close>
  "scope = seq (lit CHR ''('') (seq (star (\<lambda>c. c \<noteq> CHR '')'')) (lit CHR '')''))"

definition reBreaking :: "string \<Rightarrow> bool" where
  "reBreaking s =
     (matchesAt (seq (plus isWord) (seq (opt scope) (seq (lit CHR ''!'') (seq (opt (lit CHR '':'')) (cls isSpace))))) s
      \<or> matchesAnywhere (str_i ''BREAKING CHANGE:'') s)"

definition reFeat :: "string \<Rightarrow> bool" where
  "reFeat s =
     matchesAt (seq (str_i ''feat'') (seq (opt scope) (seq (opt (lit CHR ''!'')) (seq (lit CHR '':'') (cls isSpace))))) s"

definition reFix :: "string \<Rightarrow> bool" where
  "reFix s =
     matchesAt (seq (str_i ''fix'') (seq (opt scope) (seq (opt (lit CHR ''!'')) (seq (lit CHR '':'') (cls isSpace))))) s"

definition firstLineOf :: "string \<Rightarrow> string" where
  \<comment> \<open>\<open>msg.split('\n')[0]\<close>\<close>
  "firstLineOf msg = hd (split_js (CHR 0x0A) msg)"

fun scanCommits :: "string list \<Rightarrow> bool \<times> bool \<times> bool \<Rightarrow> bool \<times> bool \<times> bool" where
  \<comment> \<open>the loop over the messages, on the flags (hasBreaking, hasFeat, hasFix)\<close>
  "scanCommits [] flags = flags"
| "scanCommits (msg # rest) (hasBreaking, hasFeat, hasFix) =
     (let firstLine = firstLineOf msg in
      if reBreaking firstLine then scanCommits rest (True, hasFeat, hasFix)
      else if reFeat firstLine then scanCommits rest (hasBreaking, True, hasFix)
      else if reFix firstLine then scanCommits rest (hasBreaking, hasFeat, True)
      else scanCommits rest (hasBreaking, hasFeat, hasFix))"

definition suggestBumpFromCommits :: "string list \<Rightarrow> string option" where
  \<comment> \<open>\<open>None\<close> is the \<open>null\<close> of the source\<close>
  "suggestBumpFromCommits commitMessages =
     (case scanCommits commitMessages (False, False, False) of
        (hasBreaking, hasFeat, hasFix) \<Rightarrow>
          if hasBreaking then Some ''major''
          else if hasFeat then Some ''minor''
          else if hasFix then Some ''patch''
          else None)"

section \<open>Effects\<close>

text \<open>
  What the program does to the outside is a trace of events: the actions it performs and
  the lines it prints. The outside answers each action through a function, which sees the
  trace so far: \<open>Inr\<close> is the output of the action. For a child process (\<open>Exec\<close>), \<open>Inl\<close>
  is what the command wrote on its standard error before it exited with a status that is
  not zero; for the other actions it is the message of the error thrown.
  A computation takes the trace and returns it extended, with a value or the message of
  the error thrown (\<open>Inl\<close>).
\<close>

datatype action =
    Exec string
  | SetPackageVersion string string
  | AppendChangelog string string
  | LoadPlugin string
  | CallPlugin string string
  | CreateGitHubRelease string string
  | CreateGitLabRelease string string
  | Ask string

datatype event = Did action | Log string | Warn string | Err string

type_synonym outside = "event list \<Rightarrow> action \<Rightarrow> string + string"

type_synonym 'a io = "event list \<Rightarrow> (string + 'a) \<times> event list"

definition ret :: "'a \<Rightarrow> 'a io" where
  "ret x tr = (Inr x, tr)"

definition throw :: "string \<Rightarrow> 'a io" where
  "throw e tr = (Inl e, tr)"

definition bind :: "'a io \<Rightarrow> ('a \<Rightarrow> 'b io) \<Rightarrow> 'b io" where
  "bind m f tr = (case m tr of (Inl e, tr') \<Rightarrow> (Inl e, tr') | (Inr x, tr') \<Rightarrow> f x tr')"

definition andThen :: "'a io \<Rightarrow> 'b io \<Rightarrow> 'b io" where
  "andThen m k = bind m (\<lambda>_. k)"

definition catch :: "'a io \<Rightarrow> (string \<Rightarrow> 'a io) \<Rightarrow> 'a io" where
  \<comment> \<open>\<open>try { m } catch (e) { h(e) }\<close>\<close>
  "catch m h tr = (case m tr of (Inl e, tr') \<Rightarrow> h e tr' | (Inr x, tr') \<Rightarrow> (Inr x, tr'))"

definition emit :: "event \<Rightarrow> unit io" where
  "emit ev tr = (Inr (), tr @ [ev])"

definition perform :: "outside \<Rightarrow> action \<Rightarrow> string io" where
  "perform orc a tr = (orc tr a, tr @ [Did a])"

text \<open>
  \<open>execSync\<close> of Node. For a command that exits with a status that is not zero it throws
  an error whose message is \<open>Command failed: \<close> and the command, followed by a line feed
  and the standard error of the command when that was captured and is not empty. It is
  captured with the default \<open>stdio\<close> (\<open>Pipe\<close>: the calls that only give an \<open>encoding\<close>, or
  no option), and it is not with \<open>stdio: 'inherit'\<close> (\<open>Inherit\<close>). The value is the standard
  output, captured likewise.
\<close>

datatype stdio = Pipe | Inherit

definition commandFailed :: "stdio \<Rightarrow> string \<Rightarrow> string \<Rightarrow> string" where
  "commandFailed io cmd err =
     ''Command failed: '' @ cmd @ (if io = Pipe \<and> err \<noteq> [] then CHR 0x0A # err else [])"

definition execSync :: "outside \<Rightarrow> stdio \<Rightarrow> string \<Rightarrow> string io" where
  "execSync orc io cmd tr =
     (case orc tr (Exec cmd) of
        Inl err \<Rightarrow> (Inl (commandFailed io cmd err), tr @ [Did (Exec cmd)])
      | Inr out \<Rightarrow> (Inr (if io = Pipe then out else []), tr @ [Did (Exec cmd)]))"

text \<open>
  What the program reads (a file, the answer of git to a question) is the state of the
  outside, which the actions performed so far may have changed: what is read is a function
  of the list of those actions.
\<close>

definition performed :: "event list \<Rightarrow> action list" where
  "performed tr = concat (map (\<lambda>ev. case ev of Did a \<Rightarrow> [a] | _ \<Rightarrow> []) tr)"

definition observe :: "(action list \<Rightarrow> 'a) \<Rightarrow> 'a io" where
  "observe f tr = (Inr (f (performed tr)), tr)"

fun forEach :: "'a list \<Rightarrow> ('a \<Rightarrow> unit io) \<Rightarrow> unit io" where
  \<comment> \<open>a \<open>for ... of\<close> loop, left at the first error\<close>
  "forEach [] f = ret ()"
| "forEach (x # xs) f = andThen (f x) (forEach xs f)"

section \<open>config.js\<close>

text \<open>
  A parsed configuration is a JSON value; numbers are the integers. An object is the list
  of its properties in insertion order, read with \<open>map_of\<close> and written with \<open>assign\<close>.
\<close>

datatype json = JNull | JBool bool | JNum int | JStr string | JArr "json list" | JObj "(string \<times> json) list"

fun assign :: "(string \<times> json) list \<Rightarrow> string \<Rightarrow> json \<Rightarrow> (string \<times> json) list" where
  \<comment> \<open>\<open>out[k] = v\<close>\<close>
  "assign [] k v = [(k, v)]"
| "assign ((k', v') # kvs) k v = (if k' = k then (k, v) # kvs else (k', v') # assign kvs k v)"

fun truthy :: "json option \<Rightarrow> bool" where
  \<comment> \<open>the truth value of a property; \<open>None\<close> is \<open>undefined\<close>\<close>
  "truthy None = False"
| "truthy (Some JNull) = False"
| "truthy (Some (JBool b)) = b"
| "truthy (Some (JNum n)) = (n \<noteq> 0)"
| "truthy (Some (JStr s)) = (s \<noteq> [])"
| "truthy (Some (JArr xs)) = True"
| "truthy (Some (JObj kvs)) = True"

fun getProp :: "json option \<Rightarrow> string \<Rightarrow> json option" where
  \<comment> \<open>\<open>x?.k\<close> on a configuration value: a property of an object, else \<open>undefined\<close>\<close>
  "getProp (Some (JObj kvs)) k = map_of kvs k"
| "getProp _ k = None"

fun ownProps :: "json \<Rightarrow> (string \<times> json) list" where
  \<comment> \<open>the enumerable own properties, of \<open>Object.keys\<close> and of the spread \<open>{ ...x }\<close>\<close>
  "ownProps (JObj kvs) = kvs"
| "ownProps (JArr xs) = zip (map showNat [0..<length xs]) xs"
| "ownProps (JStr s) = zip (map showNat [0..<length s]) (map (\<lambda>c. JStr [c]) s)"
| "ownProps _ = []"

function (sequential) deepMerge :: "json \<Rightarrow> json \<Rightarrow> json" where
  \<comment> \<open>the source is not \<open>null\<close>: \<open>Object.keys(null)\<close> throws, see \<open>loadConfig\<close>\<close>
  "deepMerge target (JObj src) =
     JObj (fold (\<lambda>kv out.
              case snd kv of
                JObj inner \<Rightarrow>
                  assign out (fst kv)
                    (deepMerge (if truthy (map_of out (fst kv)) then the (map_of out (fst kv)) else JObj [])
                       (snd kv))
              | v \<Rightarrow> assign out (fst kv) v)
            src (ownProps target))"
| "deepMerge target (JArr xs) =
     JObj (fold (\<lambda>kv out.
              case snd kv of
                JObj inner \<Rightarrow>
                  assign out (fst kv)
                    (deepMerge (if truthy (map_of out (fst kv)) then the (map_of out (fst kv)) else JObj [])
                       (JObj inner))
              | v \<Rightarrow> assign out (fst kv) v)
            (zip (map showNat [0..<length xs]) xs) (ownProps target))"
| "deepMerge target (JStr s) = JObj (fold (\<lambda>kv out. assign out (fst kv) (snd kv)) (ownProps (JStr s)) (ownProps target))"
| "deepMerge target source = JObj (ownProps target)"
  by pat_completeness auto

termination deepMerge
proof (relation "measure (\<lambda>(target, source). size source)")
  show "wf (measure (\<lambda>(target, source). size source))" by simp
next
  fix target :: json and src :: "(string \<times> json) list" and kv out inner
  assume "kv \<in> set src" and "snd kv = JObj inner"
  then have "(fst kv, JObj inner) \<in> set src" by (metis prod.collapse)
  then have "size (JObj inner) \<le> size_list (size_prod (\<lambda>_. 0) size) src"
    by (intro size_list_estimation'[where x = "(fst kv, JObj inner)"]) simp_all
  then show "((if truthy (map_of out (fst kv)) then the (map_of out (fst kv)) else JObj [], snd kv),
              (target, JObj src)) \<in> measure (\<lambda>(target, source). size source)"
    using \<open>snd kv = JObj inner\<close> by simp
next
  fix target :: json and xs :: "json list" and kv :: "string \<times> json"
    and out :: "(string \<times> json) list" and inner
  assume "kv \<in> set (zip (map showNat [0..<length xs]) xs)" and "snd kv = JObj inner"
  then have "JObj inner \<in> set xs" by (metis prod.collapse set_zip_rightD)
  then have "size (JObj inner) \<le> size_list size xs"
    by (intro size_list_estimation'[where x = "JObj inner"]) simp_all
  then show "((if truthy (map_of out (fst kv)) then the (map_of out (fst kv)) else JObj [], JObj inner),
              (target, JArr xs)) \<in> measure (\<lambda>(target, source). size source)"
    by simp
qed


definition BUMP_TYPES :: "string list" where
  "BUMP_TYPES = [''patch'', ''minor'', ''major'', ''hotfix'']"

definition getDefaults :: json where
  "getDefaults = JObj [
     (''gitFlow'', JBool True),
     (''git'', JObj [(''requireUpstream'', JBool False), (''pushArgs'', JArr [JStr ''--follow-tags''])]),
     (''branches'', JObj [(''main'', JStr ''main''), (''develop'', JStr ''develop'')]),
     (''releaseBranchPrefix'', JStr ''release/''),
     (''changelog'', JObj [(''dateLocale'', JStr ''fa-IR''), (''path'', JStr ''CHANGELOG.md''),
        (''template'', JNull), (''command'', JNull), (''releaseNotesCommand'', JNull),
        (''includeTypes'', JNull), (''groupByType'', JBool False)]),
     (''tag'', JObj [(''prefix'', JStr ''v''), (''deleteIfExists'', JBool True)]),
     (''syncBranches'', JBool True),
     (''requireCleanWorkingDir'', JBool True),
     (''allowReleaseFrom'', JArr [JStr ''develop'']),
     (''hooks'', JObj [(''beforeInit'', JArr []), (''beforeRelease'', JArr []), (''afterBump'', JArr []),
        (''afterGitRelease'', JArr []), (''afterRelease'', JArr [])]),
     (''npm'', JObj [(''publish'', JBool False), (''publishPath'', JStr ''.''), (''tag'', JStr ''latest''),
        (''otp'', JNull)]),
     (''github'', JObj [(''release'', JBool False), (''tokenRef'', JStr ''GITHUB_TOKEN''),
        (''draft'', JBool False), (''preRelease'', JBool False)]),
     (''gitlab'', JObj [(''release'', JBool False), (''tokenRef'', JStr ''GITLAB_TOKEN'')]),
     (''conventionalCommits'', JBool False),
     (''commitMessage'', JStr ''release: update version to ${version} and changelog''),
     (''tagMessage'', JStr ''Release-${version}''),
     (''preRelease'', JObj [(''id'', JNull)]),
     (''plugins'', JArr [])]"

text \<open>
  What \<open>config.js\<close> takes from the platform: the path functions and \<open>JSON.parse\<close> (with
  the message of the error it throws on a text that is no JSON), the file system and the
  environment.
\<close>

datatype fsEntry = File string | Directory

record platform =
  isAbsolute :: "string \<Rightarrow> bool"
  pathJoin :: "string \<Rightarrow> string \<Rightarrow> string"
  jsonParse :: "string \<Rightarrow> string + json"
  files :: "string \<Rightarrow> fsEntry option"
  env :: "string \<Rightarrow> string option"

definition existsSync :: "platform \<Rightarrow> string \<Rightarrow> bool" where
  "existsSync P p = (files P p \<noteq> None)"

definition readFileSync :: "platform \<Rightarrow> string \<Rightarrow> string + string" where
  \<comment> \<open>\<open>Inl\<close> is the error thrown\<close>
  "readFileSync P p =
     (case files P p of
        Some (File text) \<Rightarrow> Inr text
      | Some Directory \<Rightarrow> Inl ''EISDIR: illegal operation on a directory, read''
      | None \<Rightarrow> Inl ''ENOENT: no such file or directory'')"

datatype found = NotFound | FoundPath string | FromPackage json string

definition findConfigFile :: "platform \<Rightarrow> string \<Rightarrow> string option \<Rightarrow> found" where
  "findConfigFile P cwd explicitPath =
     (if explicitPath \<noteq> None \<and> explicitPath \<noteq> Some [] then
        (let p = (if isAbsolute P (the explicitPath) then the explicitPath
                  else pathJoin P cwd (the explicitPath))
         in if existsSync P p then FoundPath p else NotFound)
      else
        (case filter (existsSync P) (map (pathJoin P cwd) [''.reliz.json'', ''.relizrc.json'']) of
           p # _ \<Rightarrow> FoundPath p
         | [] \<Rightarrow>
             (let pkgPath = pathJoin P cwd ''package.json'' in
              if existsSync P pkgPath then
                (case readFileSync P pkgPath of
                   Inl _ \<Rightarrow> NotFound
                 | Inr text \<Rightarrow>
                     (case jsonParse P text of
                        Inl _ \<Rightarrow> NotFound
                      | Inr JNull \<Rightarrow> NotFound
                      | Inr pkg \<Rightarrow>
                          (case getProp (Some pkg) ''reliz'' of
                             None \<Rightarrow> NotFound
                           | Some JNull \<Rightarrow> NotFound
                           | Some _ \<Rightarrow> FromPackage pkg pkgPath)))
              else NotFound)))"

definition loadFromFile :: "platform \<Rightarrow> string \<Rightarrow> string option \<Rightarrow> json io" where
  \<comment> \<open>the file is read and parsed inside \<open>try\<close>; the \<open>catch\<close> returns \<open>{}\<close> and prints nothing\<close>
  "loadFromFile P cwd explicitPath =
     (case findConfigFile P cwd explicitPath of
        NotFound \<Rightarrow> ret (JObj [])
      | FromPackage pkg pkgPath \<Rightarrow>
          ret (if truthy (getProp (Some pkg) ''reliz'') then the (getProp (Some pkg) ''reliz'') else JObj [])
      | FoundPath p \<Rightarrow>
          if p = [] then ret (JObj [])
          else
            catch (case readFileSync P p of
                     Inl e \<Rightarrow> throw e
                   | Inr text \<Rightarrow>
                       (case jsonParse P text of
                          Inl e \<Rightarrow> throw e
                        | Inr value \<Rightarrow> ret value))
              (\<lambda>e. ret (JObj [])))"

record envOverrides =
  env_ci :: bool
  env_bump :: "string option"
  env_dryRun :: bool
  env_noGitFlow :: bool
  env_yes :: bool
  env_preid :: "string option"

definition isOn :: "string option \<Rightarrow> bool" where
  \<comment> \<open>\<open>v === '1' || v === 'true'\<close>\<close>
  "isOn v = (v = Some ''1'' \<or> v = Some ''true'')"

definition isSet :: "string option \<Rightarrow> bool" where
  \<comment> \<open>the truth value of an environment variable: set and not empty\<close>
  "isSet v = (v \<noteq> None \<and> v \<noteq> Some [])"

definition loadFromEnv :: "platform \<Rightarrow> envOverrides" where
  "loadFromEnv P =
     \<lparr> env_ci = isOn (env P ''RELIZ_CI''),
       env_bump = (if isSet (env P ''RELIZ_BUMP'') \<and> the (env P ''RELIZ_BUMP'') \<in> set BUMP_TYPES
                   then env P ''RELIZ_BUMP'' else None),
       env_dryRun = isOn (env P ''RELIZ_DRY_RUN''),
       env_noGitFlow = isOn (env P ''RELIZ_NO_GIT_FLOW''),
       env_yes = isOn (env P ''RELIZ_YES''),
       env_preid = (if isSet (env P ''RELIZ_PREID'') then env P ''RELIZ_PREID'' else None) \<rparr>"

record parsed =
  p_bump :: "string option"
  p_ci :: bool
  p_dryRun :: bool
  p_noGitFlow :: bool
  p_yes :: bool
  p_config :: "string option"
  p_preid :: "string option"
  p_noIncrement :: bool
  p_releaseVersion :: bool
  p_onlyVersion :: bool
  p_changelog :: bool
  p_verbose :: bool

definition startsWith :: "string \<Rightarrow> string \<Rightarrow> bool" where
  "startsWith s t = (take (length t) s = t)"

fun parseArgs :: "string list \<Rightarrow> parsed \<Rightarrow> parsed" where
  \<comment> \<open>the loop of \<open>parseArgv\<close> over the arguments left\<close>
  "parseArgs [] out = out"
| "parseArgs (a # rest) out =
     (if a = ''--ci'' then parseArgs rest (out\<lparr>p_ci := True\<rparr>)
      else if a = ''--dry-run'' then parseArgs rest (out\<lparr>p_dryRun := True\<rparr>)
      else if a = ''--no-git-flow'' then parseArgs rest (out\<lparr>p_noGitFlow := True\<rparr>)
      else if a = ''--yes'' \<or> a = ''-y'' then parseArgs rest (out\<lparr>p_yes := True\<rparr>)
      else if a = ''--no-increment'' then parseArgs rest (out\<lparr>p_noIncrement := True\<rparr>)
      else if a = ''--release-version'' then parseArgs rest (out\<lparr>p_releaseVersion := True\<rparr>)
      else if a = ''--only-version'' then parseArgs rest (out\<lparr>p_onlyVersion := True\<rparr>)
      else if a = ''--changelog'' then parseArgs rest (out\<lparr>p_changelog := True\<rparr>)
      else if a = ''--verbose'' \<or> a = ''-V'' then parseArgs rest (out\<lparr>p_verbose := True\<rparr>)
      else if a = ''--config'' \<and> rest \<noteq> [] \<and> hd rest \<noteq> [] then
        parseArgs (tl rest) (out\<lparr>p_config := Some (hd rest)\<rparr>)
      else if startsWith a ''--bump='' then parseArgs rest (out\<lparr>p_bump := Some (drop 7 a)\<rparr>)
      else if startsWith a ''--preid='' then parseArgs rest (out\<lparr>p_preid := Some (drop 8 a)\<rparr>)
      else if \<not> startsWith a ''--'' \<and> a \<in> set BUMP_TYPES then parseArgs rest (out\<lparr>p_bump := Some a\<rparr>)
      else parseArgs rest out)"

definition parseArgv :: "string list \<Rightarrow> parsed" where
  "parseArgv args =
     parseArgs args
       \<lparr> p_bump = None, p_ci = False, p_dryRun = False, p_noGitFlow = False, p_yes = False,
         p_config = None, p_preid = None, p_noIncrement = False, p_releaseVersion = False,
         p_onlyVersion = False, p_changelog = False, p_verbose = False \<rparr>"

definition isCiEnv :: "platform \<Rightarrow> bool" where
  "isCiEnv P =
     (env P ''CI'' = Some ''true'' \<or> env P ''CI'' = Some ''1'' \<or> isSet (env P ''GITHUB_ACTIONS'')
      \<or> isSet (env P ''GITLAB_CI'') \<or> isSet (env P ''CIRCLECI'') \<or> isSet (env P ''TRAVIS'')
      \<or> isSet (env P ''JENKINS_URL''))"

record argv =
  argv_bump :: "string option"
  argv_ci :: bool
  argv_dryRun :: bool
  argv_noGitFlow :: bool
  argv_yes :: bool
  argv_config :: "string option"
  argv_preid :: "json option"
  argv_noIncrement :: bool
  argv_releaseVersion :: bool
  argv_onlyVersion :: bool
  argv_changelog :: bool
  argv_verbose :: bool

definition orElse :: "json option \<Rightarrow> json option \<Rightarrow> json option" where
  \<comment> \<open>\<open>a || b\<close>\<close>
  "orElse a b = (if truthy a then a else b)"

definition strOpt :: "string option \<Rightarrow> json option" where
  "strOpt s = map_option JStr s"

definition loadConfig :: "platform \<Rightarrow> string \<Rightarrow> string list \<Rightarrow> (json \<times> argv) io" where
  \<comment> \<open>the error thrown is the one of \<open>Object.keys\<close> in \<open>deepMerge\<close>, on a file whose JSON is \<open>null\<close>\<close>
  "loadConfig P cwd args =
     (let parsed = parseArgv args in
      bind (loadFromFile P cwd (if isSet (p_config parsed) then p_config parsed else None))
        (\<lambda>fileConfig.
      case fileConfig of
        JNull \<Rightarrow> throw ''Cannot convert undefined or null to object''
      | _ \<Rightarrow>
          (let envOverrides = loadFromEnv P;
               config0 = deepMerge getDefaults fileConfig;
               config1 = (if env_ci envOverrides then JObj (assign (ownProps config0) ''ci'' (JBool True)) else config0);
               config2 = (if env_dryRun envOverrides then JObj (assign (ownProps config1) ''dryRun'' (JBool True)) else config1);
               config3 = (if env_bump envOverrides \<noteq> None
                          then JObj (assign (ownProps config2) ''bump'' (JStr (the (env_bump envOverrides))))
                          else config2);
               preid = orElse (strOpt (p_preid parsed))
                         (orElse (strOpt (env_preid envOverrides))
                            (orElse (getProp (getProp (Some config3) ''preRelease'') ''id'') (Some JNull)));
               config4 = (if truthy preid
                          then JObj (assign (ownProps config3) ''preRelease''
                                 (JObj (assign (case getProp (Some config3) ''preRelease'' of
                                                  None \<Rightarrow> [] | Some pr \<Rightarrow> ownProps pr)
                                          ''id'' (the preid))))
                          else config3);
               isCi = (p_ci parsed \<or> getProp (Some config4) ''ci'' = Some (JBool True)
                       \<or> (getProp (Some config4) ''ci'' \<noteq> Some (JBool False) \<and> isCiEnv P));
               config5 = (if isCi then JObj (assign (ownProps config4) ''ci'' (JBool True)) else config4)
           in
           ret (config5,
                \<lparr> argv_bump = (if isSet (p_bump parsed) then p_bump parsed
                                else if isSet (env_bump envOverrides) then env_bump envOverrides else None),
                  argv_ci = isCi,
                  argv_dryRun = (p_dryRun parsed \<or> getProp (Some config5) ''dryRun'' = Some (JBool True)),
                  argv_noGitFlow = p_noGitFlow parsed,
                  argv_yes = p_yes parsed,
                  argv_config = p_config parsed,
                  argv_preid = orElse preid (Some JNull),
                  argv_noIncrement = p_noIncrement parsed,
                  argv_releaseVersion = p_releaseVersion parsed,
                  argv_onlyVersion = p_onlyVersion parsed,
                  argv_changelog = p_changelog parsed,
                  argv_verbose = p_verbose parsed \<rparr>))))"

definition effectiveDryRun :: "json \<Rightarrow> argv \<Rightarrow> bool" where
  \<comment> \<open>\<open>cli.js\<close>: \<open>const dryRun = config.dryRun ?? argv.dryRun\<close>, as the conditions read it\<close>
  "effectiveDryRun config argv =
     (case getProp (Some config) ''dryRun'' of
        None \<Rightarrow> argv_dryRun argv
      | Some JNull \<Rightarrow> argv_dryRun argv
      | Some v \<Rightarrow> truthy (Some v))"

text \<open>
  The workflow code reads a configuration at the types of its schema: a string where a
  string is documented, a list of strings, a flag. A value of another type is outside the
  model and read as absent.
\<close>

definition strOr :: "json option \<Rightarrow> string \<Rightarrow> string" where
  \<comment> \<open>\<open>x || d\<close> for a string\<close>
  "strOr x d = (case x of Some (JStr s) \<Rightarrow> if s = [] then d else s | _ \<Rightarrow> d)"

definition strNullish :: "json option \<Rightarrow> string \<Rightarrow> string" where
  \<comment> \<open>\<open>x ?? d\<close> for a string: the empty string stays\<close>
  "strNullish x d = (case x of Some (JStr s) \<Rightarrow> s | _ \<Rightarrow> d)"

definition strList :: "json option \<Rightarrow> string list" where
  \<comment> \<open>\<open>(x || []).filter(Boolean)\<close> for a list of strings\<close>
  "strList x =
     (case x of
        Some (JArr xs) \<Rightarrow> concat (map (\<lambda>j. case j of JStr s \<Rightarrow> if s = [] then [] else [s] | _ \<Rightarrow> []) xs)
      | _ \<Rightarrow> [])"

section \<open>Text functions\<close>

text \<open>
  The text functions whose result no property here depends on stay parameters:
  \<open>interpolate\<close> of \<open>hooks.js\<close> (on a template and the scalar entries of a context),
  the replacement \<^verbatim>\<open>s.replace(/\$\{version\}/g, v)\<close>, \<open>formatDate\<close> (on the locale; it
  reads the clock), \<open>filterAndFormatCommits\<close> of \<open>changelog.js\<close> (on the changelog
  options and the commits) and the two expressions that read the owner and the project
  off the URL of \<open>origin\<close>.
\<close>

record texts =
  interpolate :: "string \<Rightarrow> (string \<times> string) list \<Rightarrow> string"
  replaceVersion :: "string \<Rightarrow> string \<Rightarrow> string"
  formatDate :: "string \<Rightarrow> string"
  filterAndFormatCommits :: "json option \<Rightarrow> string list \<Rightarrow> string"
  githubRepoOf :: "string \<Rightarrow> string option"
  gitlabRepoOf :: "string \<Rightarrow> string option"

definition quoteEscape :: "string \<Rightarrow> string" where
  \<comment> \<open>\<^verbatim>\<open>s.replace(/"/g, '\\"')\<close>\<close>
  "quoteEscape s = concat (map (\<lambda>c. if c = CHR 0x22 then [CHR 0x5C, CHR 0x22] else [c]) s)"

definition joinWith :: "string \<Rightarrow> string list \<Rightarrow> string" where
  \<comment> \<open>\<open>xs.join(sep)\<close>\<close>
  "joinWith sep xs = (case xs of [] \<Rightarrow> [] | x # r \<Rightarrow> x @ concat (map (\<lambda>y. sep @ y) r))"

definition pushSuffixOf :: "string list \<Rightarrow> string" where
  "pushSuffixOf pushArgs = (if pushArgs = [] then [] else '' '' @ joinWith '' '' pushArgs)"

section \<open>gitFlow.js\<close>

record releaseContext =
  c_cwd :: string
  c_config :: json
  c_dryRun :: bool
  c_isCi :: bool
  c_verbose :: bool
  c_currentBranch :: string
  c_currentVersion :: string
  c_version :: string
  c_latestTag :: "string option"
  c_bump :: "string option"
  c_commits :: "string list"
  c_projectName :: string
  c_dateStr :: string
  c_tagName :: string
  c_releaseUrl :: "string option"
  c_changelogText :: string

definition syncBranches :: "outside \<Rightarrow> releaseContext \<Rightarrow> unit io" where
  "syncBranches orc context =
     (let currentBranch = c_currentBranch context;
          config = c_config context;
          main = strOr (getProp (getProp (Some config) ''branches'') ''main'') ''main'';
          develop = strOr (getProp (getProp (Some config) ''branches'') ''develop'') ''develop''
      in
      andThen (emit (Log ''Fetching all branches...''))
     (andThen (execSync orc Inherit ''git fetch --all --prune'')
     (andThen (emit (Log ''Pulling main...''))
     (andThen (execSync orc Inherit (''git fetch origin '' @ main))
     (andThen (execSync orc Inherit (''git branch --force '' @ main @ '' origin/'' @ main))
     (andThen (emit (Log ''Pulling develop...''))
     (andThen (execSync orc Inherit (''git fetch origin '' @ develop))
     (andThen (if currentBranch \<noteq> develop
               then andThen (execSync orc Inherit (''git branch --force '' @ develop @ '' origin/'' @ develop)) (ret ())
               else emit (Log ''Skipping force update for develop (currently checked out).''))
              (emit (Log ''Branches are up to date.''))))))))))"

definition updateFiles :: "outside \<Rightarrow> releaseContext \<Rightarrow> unit io" where
  "updateFiles orc context =
     (let changelogPath = c_cwd context @ ''/'' @
            strOr (getProp (getProp (Some (c_config context)) ''changelog'') ''path'') ''CHANGELOG.md''
      in
      andThen (perform orc (SetPackageVersion (c_cwd context) (c_version context)))
     (andThen (perform orc (AppendChangelog changelogPath (c_version context)))
              (ret ())))"

definition gitFlowPrepare :: "outside \<Rightarrow> texts \<Rightarrow> releaseContext \<Rightarrow> unit io" where
  \<comment> \<open>\<open>performGitFlowRelease\<close> up to the commit\<close>
  "gitFlowPrepare orc T context =
     (let config = c_config context;
          newVersion = c_version context;
          prefix = strOr (getProp (Some config) ''releaseBranchPrefix'') ''release/'';
          releaseBranch = prefix @ newVersion;
          commitMsg = replaceVersion T
            (strOr (getProp (Some config) ''commitMessage'') ''release: update version to ${version} and changelog'')
            newVersion
      in
      andThen (emit (Log ''Starting git flow release process...''))
     (bind (catch (bind (execSync orc Pipe ''git branch'') (\<lambda>branches. ret (includes_js branches releaseBranch)))
                  (\<lambda>_. ret False))
        (\<lambda>releaseBranchExists.
      andThen (if \<not> releaseBranchExists
               then andThen (emit (Log (''Creating release branch: '' @ releaseBranch)))
                      (if \<not> c_dryRun context
                       then andThen (execSync orc Inherit (''git flow release start '' @ newVersion)) (ret ())
                       else ret ())
               else andThen (emit (Log (''Release branch '' @ releaseBranch @ '' already exists.'')))
                      (if \<not> c_dryRun context
                       then andThen (execSync orc Inherit (''git checkout '' @ releaseBranch)) (ret ())
                       else ret ()))
              (if \<not> c_dryRun context
               then andThen (updateFiles orc context)
                   (andThen (emit (Log ''Committing updated files...''))
                   (andThen (execSync orc Inherit ''git add .'')
                   (andThen (execSync orc Inherit (''git commit -m '' @ [CHR 0x22] @ quoteEscape commitMsg @ [CHR 0x22]))
                            (ret ()))))
               else ret ()))))"

definition pushReleaseBranch :: "outside \<Rightarrow> string \<Rightarrow> string \<Rightarrow> unit io" where
  \<comment> \<open>the push of the release branch, with its \<open>try\<close> and \<open>catch\<close>\<close>
  "pushReleaseBranch orc pushSuffix releaseBranch =
     andThen (emit (Log ''Pushing release branch...''))
       (catch (andThen (execSync orc Inherit (''git push origin HEAD'' @ pushSuffix)) (ret ()))
          (\<lambda>pushErr.
             if pushErr \<noteq> [] \<and> includes_js pushErr ''non-fast-forward'' then
               catch (andThen (execSync orc Inherit (''git pull --rebase origin '' @ releaseBranch))
                     (andThen (execSync orc Inherit (''git push origin HEAD'' @ pushSuffix)) (ret ())))
                 (\<lambda>rebaseErr. throw ''Push after rebase failed. Please resolve conflicts and push manually.'')
             else throw pushErr))"

definition gitFlowFinish :: "outside \<Rightarrow> texts \<Rightarrow> releaseContext \<Rightarrow> string \<Rightarrow> unit io" where
  \<comment> \<open>\<open>performGitFlowRelease\<close> after the push of the release branch\<close>
  "gitFlowFinish orc T context pushSuffix =
     (let config = c_config context;
          newVersion = c_version context;
          main = strOr (getProp (getProp (Some config) ''branches'') ''main'') ''main'';
          develop = strOr (getProp (getProp (Some config) ''branches'') ''develop'') ''develop'';
          tagMsg = replaceVersion T (strOr (getProp (Some config) ''tagMessage'') (''Release-'' @ newVersion)) newVersion;
          tagPrefix = strNullish (getProp (getProp (Some config) ''tag'') ''prefix'') ''v'';
          tagName = (if tagPrefix \<noteq> [] then tagPrefix @ newVersion else newVersion)
      in
      andThen (emit (Log (''Finishing git flow release: '' @ newVersion)))
     (andThen (execSync orc Inherit (''GIT_MERGE_AUTOEDIT=no GIT_EDITOR=true git flow release finish -m ''
                 @ [CHR 0x22] @ tagMsg @ [CHR 0x22] @ '' '' @ newVersion))
     (andThen (emit (Log ''Pushing all branches and tags...''))
     (andThen (execSync orc Inherit (''git push origin '' @ develop @ pushSuffix))
     (andThen (execSync orc Inherit (''git push origin '' @ main @ pushSuffix))
     (bind (execSync orc Pipe ''git tag'')
        (\<lambda>out.
           if tagName \<in> set (filter (\<lambda>l. l \<noteq> []) (split_js (CHR 0x0A) out))
           then andThen (execSync orc Inherit (''git push origin '' @ tagName @ pushSuffix)) (ret ())
           else emit (Warn (''Tag '' @ tagName @ '' does not exist locally. Skipping tag push.'')))))))))"

definition performGitFlowRelease :: "outside \<Rightarrow> texts \<Rightarrow> releaseContext \<Rightarrow> unit io" where
  "performGitFlowRelease orc T context =
     (let config = c_config context;
          prefix = strOr (getProp (Some config) ''releaseBranchPrefix'') ''release/'';
          releaseBranch = prefix @ c_version context;
          pushSuffix = pushSuffixOf (strList (getProp (getProp (Some config) ''git'') ''pushArgs''))
      in
      andThen (gitFlowPrepare orc T context)
     (andThen (if \<not> c_dryRun context
               then andThen (pushReleaseBranch orc pushSuffix releaseBranch)
                            (gitFlowFinish orc T context pushSuffix)
               else emit (Log (''[dry-run] Would perform git flow release for '' @ c_version context)))
              (emit (Log ''Git flow release completed successfully.''))))"

section \<open>git.js\<close>

text \<open>
  The functions of \<open>git.js\<close> that only ask git a question (\<open>ensureOriginRemote\<close>,
  \<open>ensureCleanWorkingTree\<close>, \<open>ensureGitFlowInstalled\<close>, \<open>getCurrentBranch\<close>,
  \<open>ensureUpstream\<close>, \<open>getNewCommits\<close>, \<open>getLatestTag\<close>) run read-only commands
  (\<open>git remote get-url\<close>, \<open>status --porcelain\<close>, \<open>flow version\<close>, \<open>branch --show-current\<close>,
  \<open>rev-parse\<close>, \<open>log\<close>, \<open>describe\<close>, \<open>tag -l\<close>). They are modelled by their answers on the
  state of the repository at the moment of the call: a snapshot for each list of actions
  performed. \<open>newCommits\<close> is the list \<open>getNewCommits\<close> returns, or the message of the error
  its second \<open>git log\<close> throws.
\<close>

record snapshot =
  originExists :: bool
  workingTreeClean :: bool
  gitFlowInstalled :: bool
  currentBranch :: string
  hasUpstream :: bool
  newCommits :: "string + string list"
  latestTag :: "string option"

type_synonym repository = "action list \<Rightarrow> snapshot"

definition ensureOriginRemote :: "repository \<Rightarrow> unit io" where
  "ensureOriginRemote repo =
     bind (observe repo)
       (\<lambda>R. if originExists R then ret () else throw ''Remote \"origin\" does not exist.'')"

definition ensureCleanWorkingTree :: "repository \<Rightarrow> unit io" where
  "ensureCleanWorkingTree repo =
     bind (observe repo)
       (\<lambda>R. if workingTreeClean R then ret ()
            else throw ''You have uncommitted changes. Please commit or stash them before running the release script.'')"

definition ensureGitFlowInstalled :: "repository \<Rightarrow> unit io" where
  "ensureGitFlowInstalled repo =
     bind (observe repo)
       (\<lambda>R. if gitFlowInstalled R then ret ()
            else throw ''git flow is not installed. Please install it before running the release script.'')"

definition getCurrentBranch :: "repository \<Rightarrow> string io" where
  "getCurrentBranch repo = bind (observe repo) (\<lambda>R. ret (currentBranch R))"

definition ensureUpstream :: "repository \<Rightarrow> string \<Rightarrow> bool \<Rightarrow> unit io" where
  "ensureUpstream repo branch requireUpstream =
     (if \<not> requireUpstream then ret ()
      else bind (observe repo)
             (\<lambda>R. if hasUpstream R then ret ()
                  else throw (''Branch \"'' @ branch @ ''\" has no upstream. Push the branch first or set git.requireUpstream: false.'')))"

definition getNewCommits :: "repository \<Rightarrow> string list io" where
  "getNewCommits repo =
     bind (observe repo) (\<lambda>R. case newCommits R of Inl e \<Rightarrow> throw e | Inr commits \<Rightarrow> ret commits)"

definition getLatestTag :: "repository \<Rightarrow> string option io" where
  "getLatestTag repo = bind (observe repo) (\<lambda>R. ret (latestTag R))"

definition linesOf :: "string \<Rightarrow> string list" where
  \<comment> \<open>\<open>out.split('\n').filter(Boolean)\<close>\<close>
  "linesOf out = filter (\<lambda>l. l \<noteq> []) (split_js (CHR 0x0A) out)"

definition ensureTagNotExists :: "outside \<Rightarrow> string \<Rightarrow> json option \<Rightarrow> bool \<Rightarrow> unit io" where
  "ensureTagNotExists orc version tagConfig dryRun =
     (let prefix = strOr (getProp tagConfig ''prefix'') ''v'';
          tagName = prefix @ version
      in
      catch
        (bind (execSync orc Pipe ''git tag'')
           (\<lambda>out.
         andThen (if tagName \<in> set (linesOf out) then
                    (if dryRun then emit (Log (''[dry-run] Would delete local tag '' @ tagName))
                     else andThen (execSync orc Pipe (''git tag -d '' @ tagName))
                                  (emit (Log (''Deleted local tag '' @ tagName))))
                  else ret ())
        (bind (execSync orc Pipe ''git ls-remote --tags origin'')
           (\<lambda>remoteTags.
              if includes_js remoteTags (''refs/tags/'' @ tagName) then
                (if dryRun then emit (Log (''[dry-run] Would delete remote tag '' @ tagName))
                 else andThen (execSync orc Pipe (''git push origin :refs/tags/'' @ tagName))
                              (emit (Log (''Deleted remote tag '' @ tagName))))
              else ret ()))))
        (\<lambda>_. ret ()))"

definition createTag :: "outside \<Rightarrow> texts \<Rightarrow> string \<Rightarrow> json option \<Rightarrow> json option \<Rightarrow> bool \<Rightarrow> string io" where
  "createTag orc T version tagConfig tagMessage dryRun =
     (let prefix = strOr (getProp tagConfig ''prefix'') ''v'';
          tagName = prefix @ version;
          msg = replaceVersion T (strOr tagMessage (''Release '' @ version)) version
      in
      if dryRun then andThen (emit (Log (''[dry-run] Would create tag '' @ tagName))) (ret tagName)
      else andThen (execSync orc Inherit (''git tag -a '' @ tagName @ '' -m '' @ [CHR 0x22] @ quoteEscape msg @ [CHR 0x22]))
                   (ret tagName))"

definition pushTag :: "outside \<Rightarrow> string \<Rightarrow> bool \<Rightarrow> string list \<Rightarrow> unit io" where
  "pushTag orc tagName dryRun pushArgs =
     (if dryRun then emit (Log (''[dry-run] Would push tag '' @ tagName))
      else andThen (execSync orc Inherit (''git push origin '' @ tagName @ pushSuffixOf pushArgs)) (ret ()))"

definition pushBranch :: "outside \<Rightarrow> string \<Rightarrow> bool \<Rightarrow> string list \<Rightarrow> unit io" where
  "pushBranch orc branch dryRun pushArgs =
     (if dryRun then emit (Log (''[dry-run] Would push branch '' @ branch))
      else andThen (execSync orc Inherit (''git push origin '' @ branch @ pushSuffixOf pushArgs)) (ret ()))"

section \<open>linearRelease.js\<close>

definition performLinearRelease :: "outside \<Rightarrow> texts \<Rightarrow> repository \<Rightarrow> releaseContext \<Rightarrow> unit io" where
  "performLinearRelease orc T repo context =
     (let config = c_config context;
          newVersion = c_version context;
          dryRun = c_dryRun context;
          commitMessage = interpolate T
            (strOr (getProp (Some config) ''commitMessage'') ''release: update version to ${version} and changelog'')
            [(''version'', newVersion)];
          changelogPath = c_cwd context @ ''/'' @
            strOr (getProp (getProp (Some config) ''changelog'') ''path'') ''CHANGELOG.md'';
          pushArgs = strList (getProp (getProp (Some config) ''git'') ''pushArgs'')
      in
      andThen (emit (Log ''Starting linear release (no git-flow)...''))
     (andThen (if \<not> dryRun
               then andThen (perform orc (SetPackageVersion (c_cwd context) newVersion))
                   (andThen (perform orc (AppendChangelog changelogPath newVersion))
                   (andThen (emit (Log ''Committing...''))
                   (andThen (execSync orc Inherit ''git add .'')
                   (andThen (execSync orc Inherit (''git commit -m '' @ [CHR 0x22] @ quoteEscape commitMessage @ [CHR 0x22]))
                            (ret ())))))
               else emit (Log ''[dry-run] Would update package.json and CHANGELOG, then commit.''))
     (bind (createTag orc T newVersion (getProp (Some config) ''tag'') (getProp (Some config) ''tagMessage'') dryRun)
        (\<lambda>tagName.
      andThen (if \<not> dryRun
               then bind (getCurrentBranch repo)
                      (\<lambda>branch. andThen (pushBranch orc branch False pushArgs)
                                        (pushTag orc tagName False pushArgs))
               else emit (Log ''[dry-run] Would push branch and tag.''))
              (emit (Log ''Linear release completed successfully.''))))))"

section \<open>hooks.js and plugins.js\<close>

definition hookList :: "json option \<Rightarrow> string list" where
  \<comment> \<open>\<open>Array.isArray(commands) ? commands : (commands ? [commands] : [])\<close>\<close>
  "hookList commands =
     (case commands of
        Some (JArr xs) \<Rightarrow> concat (map (\<lambda>j. case j of JStr s \<Rightarrow> [s] | _ \<Rightarrow> []) xs)
      | Some (JStr s) \<Rightarrow> if s = [] then [] else [s]
      | _ \<Rightarrow> [])"

definition runHooks :: "outside \<Rightarrow> texts \<Rightarrow> json option \<Rightarrow> (string \<times> string) list \<Rightarrow> bool \<Rightarrow> unit io" where
  "runHooks orc T commands scalars dryRun =
     forEach (hookList commands)
       (\<lambda>cmd.
          (let line = interpolate T cmd scalars in
           if dryRun then emit (Log (''[dry-run] Would run: '' @ line))
           else catch (andThen (execSync orc Inherit line) (ret ()))
                  (\<lambda>e. throw (''Hook failed: '' @ line @ ''. '' @ e))))"

record plugin =
  pl_name :: string
  pl_methods :: "string list"

text \<open>
  \<open>require\<close> of a plugin module answers with the plugin (its name and the lifecycle
  methods it exports) or with the error of the load.
\<close>

definition loadPlugins :: "outside \<Rightarrow> (string \<Rightarrow> string + plugin) \<Rightarrow> json option \<Rightarrow> plugin list io" where
  "loadPlugins orc require pluginPaths =
     foldl (\<lambda>acc p.
              bind acc (\<lambda>plugins.
              andThen (emit (Did (LoadPlugin p)))
                (case require p of
                   Inl e \<Rightarrow> andThen (emit (Warn (''Plugin \"'' @ p @ ''\" failed to load: '' @ e))) (ret plugins)
                 | Inr pl \<Rightarrow> ret (plugins @ [pl]))))
       (ret [])
       (case pluginPaths of
          Some (JArr xs) \<Rightarrow> concat (map (\<lambda>j. case j of JStr s \<Rightarrow> if s = [] then [] else [s] | _ \<Rightarrow> []) xs)
        | _ \<Rightarrow> [])"

definition runPluginLifecycle :: "outside \<Rightarrow> plugin list \<Rightarrow> string \<Rightarrow> unit io" where
  \<comment> \<open>also \<open>runPluginLifecycleAsync\<close>: a rejected promise is caught by the same \<open>catch\<close>\<close>
  "runPluginLifecycle orc plugins method =
     forEach (filter (\<lambda>pl. method \<in> set (pl_methods pl)) plugins)
       (\<lambda>pl. catch (andThen (perform orc (CallPlugin (pl_name pl) method)) (ret ()))
                (\<lambda>e. emit (Warn (''Plugin '' @ pl_name pl @ '' '' @ method @ '' failed: '' @ e))))"

section \<open>npm.js, github.js and gitlab.js\<close>

definition npmPublish :: "outside \<Rightarrow> (action list \<Rightarrow> platform) \<Rightarrow> string \<Rightarrow> json option \<Rightarrow> bool \<Rightarrow> unit io" where
  "npmPublish orc platformAt cwd npmConfig dryRun =
     bind (observe platformAt)
       (\<lambda>P.
      let publishPath = strNullish (getProp npmConfig ''publishPath'') ''.'';
          dir = pathJoin P cwd publishPath;
          tag = strNullish (getProp npmConfig ''tag'') ''latest'';
          otp = (case getProp npmConfig ''otp'' of
                   Some (JStr s) \<Rightarrow> Some s
                 | _ \<Rightarrow> env P ''NPM_OTP'')
      in
      if dryRun then
        emit (Log (''[dry-run] Would run: npm publish in '' @ dir @
                   (if tag \<noteq> ''latest'' then '' --tag '' @ tag else [])))
      else
        andThen (if existsSync P (pathJoin P dir ''package-lock.json'')
                 then andThen (emit (Log ''Syncing package-lock.json...''))
                        (andThen (execSync orc Inherit ''npm install'') (ret ()))
                 else ret ())
          (andThen (execSync orc Inherit (''npm '' @ joinWith '' ''
                      ([''publish''] @ (if tag \<noteq> [] then [''--tag'', tag] else [])
                         @ (if isSet otp then [''--otp'', the otp] else []))))
                   (ret ())))"

definition originUrl :: "outside \<Rightarrow> string option io" where
  \<comment> \<open>the \<open>try\<close> of \<open>getRepoFromOrigin\<close>: the trimmed URL, or nothing on an error\<close>
  "originUrl orc = catch (bind (execSync orc Pipe ''git remote get-url origin'') (\<lambda>url. ret (Some (trim url))))
                         (\<lambda>_. ret None)"

definition createGitHubRelease ::
  "outside \<Rightarrow> texts \<Rightarrow> (action list \<Rightarrow> platform) \<Rightarrow> string \<Rightarrow> string \<Rightarrow> json option \<Rightarrow> bool \<Rightarrow> string option io" where
  \<comment> \<open>the value is the URL of the release, or \<open>null\<close>; an error is the rejection of the promise\<close>
  "createGitHubRelease orc T platformAt tagName releaseName githubConfig dryRun =
     bind (observe platformAt)
       (\<lambda>P.
      let tokenRef = strOr (getProp githubConfig ''tokenRef'') ''GITHUB_TOKEN'' in
      if \<not> isSet (env P tokenRef) then
        andThen (emit (Warn (''GitHub token not found ('' @ tokenRef @ ''). Skipping GitHub release.''))) (ret None)
      else
        bind (originUrl orc)
          (\<lambda>url.
             case (case url of None \<Rightarrow> None | Some u \<Rightarrow> githubRepoOf T u) of
               None \<Rightarrow> andThen (emit (Warn ''Could not detect GitHub repo from origin. Skipping GitHub release.''))
                         (ret None)
             | Some repo \<Rightarrow>
                 if dryRun then
                   andThen (emit (Log (''[dry-run] Would create GitHub release '' @ releaseName @ '' for '' @ tagName)))
                     (ret None)
                 else
                   bind (perform orc (CreateGitHubRelease repo tagName))
                     (\<lambda>answer. andThen (emit (Log ''GitHub release created.''))
                                 (ret (if answer = [] then None else Some answer)))))"

definition createGitLabRelease ::
  "outside \<Rightarrow> texts \<Rightarrow> (action list \<Rightarrow> platform) \<Rightarrow> string \<Rightarrow> string \<Rightarrow> json option \<Rightarrow> bool \<Rightarrow> string option io" where
  "createGitLabRelease orc T platformAt tagName releaseName gitlabConfig dryRun =
     bind (observe platformAt)
       (\<lambda>P.
      let tokenRef = strOr (getProp gitlabConfig ''tokenRef'') ''GITLAB_TOKEN'' in
      if \<not> isSet (env P tokenRef) then
        andThen (emit (Warn (''GitLab token not found ('' @ tokenRef @ ''). Skipping GitLab release.''))) (ret None)
      else
        bind (originUrl orc)
          (\<lambda>url.
             case (case url of None \<Rightarrow> None | Some u \<Rightarrow> gitlabRepoOf T u) of
               None \<Rightarrow> andThen (emit (Warn ''Could not detect GitLab repo from origin. Skipping GitLab release.''))
                         (ret None)
             | Some repo \<Rightarrow>
                 if dryRun then
                   andThen (emit (Log (''[dry-run] Would create GitLab release '' @ releaseName @ '' for '' @ tagName)))
                     (ret None)
                 else
                   bind (perform orc (CreateGitLabRelease repo tagName))
                     (\<lambda>answer. andThen (emit (Log ''GitLab release created.''))
                                 (ret (if answer = [] then None else Some answer)))))"

section \<open>cli.js\<close>

record world =
  w_platform :: "action list \<Rightarrow> platform"
  w_outside :: outside
  w_texts :: texts
  w_repo :: repository
  w_require :: "string \<Rightarrow> string + plugin"
  w_selectBump :: "string option \<Rightarrow> string"
  w_selectPreId :: "string option"
  w_confirm :: bool

text \<open>
  The platform and the repository are given for each list of actions performed. The
  prompts of \<open>prompts.js\<close> are modelled by what they resolve to: \<open>w_selectBump\<close> (on the
  suggested bump), \<open>w_selectPreId\<close> and \<open>w_confirm\<close>. A step either goes on with a value,
  or leaves through \<open>process.exit\<close>, or reaches a value outside the model: a version
  outside the model of numbers, or the text of a version that is not a string.
\<close>

datatype 'a flow = Go 'a | ExitWith nat | OutsideModel

datatype status = Exited nat | Uncaught string | Completed | Unmodelled


definition boolStr :: "bool \<Rightarrow> string" where
  "boolStr b = (if b then ''true'' else ''false'')"

definition toPreId :: "json option \<Rightarrow> jsval" where
  \<comment> \<open>the identifier as \<open>increaseVersion\<close> receives it\<close>
  "toPreId x = (case x of None \<Rightarrow> Null | Some JNull \<Rightarrow> Null | Some (JStr s) \<Rightarrow> Str s | Some _ \<Rightarrow> NonString)"

definition nullish :: "json option \<Rightarrow> bool" where
  "nullish x = (x = None \<or> x = Some JNull)"

definition isCiOf :: "json \<Rightarrow> argv \<Rightarrow> bool" where
  \<comment> \<open>\<open>config.ci ?? argv.ci\<close>\<close>
  "isCiOf config argv = (if nullish (getProp (Some config) ''ci'') then argv_ci argv else truthy (getProp (Some config) ''ci''))"

definition useGitFlowOf :: "json \<Rightarrow> argv \<Rightarrow> bool" where
  "useGitFlowOf config argv = (getProp (Some config) ''gitFlow'' \<noteq> Some (JBool False) \<and> \<not> argv_noGitFlow argv)"

definition tagNameOf :: "json \<Rightarrow> string \<Rightarrow> string" where
  \<comment> \<open>\<open>tagPrefix ? `${tagPrefix}${newVersion}` : newVersion\<close> with \<open>tagPrefix = tagConfig.prefix ?? 'v'\<close>\<close>
  "tagNameOf config newVersion =
     (let tagPrefix = strNullish (getProp (getProp (Some config) ''tag'') ''prefix'') ''v''
      in if tagPrefix \<noteq> [] then tagPrefix @ newVersion else newVersion)"

definition versionOf :: "json option \<Rightarrow> jsval" where
  \<comment> \<open>\<open>pkg.version || '0.0.0'\<close>: a string, or a value that is true and no string\<close>
  "versionOf x = (if truthy x then (case x of Some (JStr s) \<Rightarrow> Str s | _ \<Rightarrow> NonString) else Str ''0.0.0'')"

definition getCurrentVersion :: "(action list \<Rightarrow> platform) \<Rightarrow> string \<Rightarrow> (jsval \<times> string) io" where
  "getCurrentVersion platformAt cwd =
     bind (observe platformAt)
       (\<lambda>P.
      case readFileSync P (pathJoin P cwd ''package.json'') of
        Inl e \<Rightarrow> throw e
      | Inr text \<Rightarrow>
          (case jsonParse P text of
             Inl e \<Rightarrow> throw e
           | Inr JNull \<Rightarrow> throw ''Cannot read properties of null''
           | Inr pkg \<Rightarrow> ret (versionOf (getProp (Some pkg) ''version''),
                              strOr (getProp (Some pkg) ''name'') ''project'')))"

definition runChangelogCommand :: "outside \<Rightarrow> texts \<Rightarrow> string \<Rightarrow> (string \<times> string) list \<Rightarrow> string io" where
  "runChangelogCommand orc T command vars =
     bind (execSync orc Pipe (interpolate T command vars)) (\<lambda>out. ret (trim out))"

definition commandVars :: "string option \<Rightarrow> string \<Rightarrow> string \<Rightarrow> (string \<times> string) list" where
  "commandVars tag version latestVersion =
     [(''from'', case tag of None \<Rightarrow> [] | Some t \<Rightarrow> t), (''to'', ''HEAD''),
      (''version'', version), (''latestVersion'', latestVersion)]"

definition getChangelogText :: "outside \<Rightarrow> texts \<Rightarrow> json \<Rightarrow> string list \<Rightarrow> string \<Rightarrow> string \<Rightarrow> string option \<Rightarrow> string io" where
  "getChangelogText orc T config commits version latestVersion tag =
     (let ch = getProp (Some config) ''changelog'' in
      case getProp ch ''command'' of
        Some (JStr command) \<Rightarrow>
          if command \<noteq> [] then runChangelogCommand orc T command (commandVars tag version latestVersion)
          else ret (filterAndFormatCommits T ch commits)
      | _ \<Rightarrow> ret (filterAndFormatCommits T ch commits))"

definition getReleaseNotesBody :: "outside \<Rightarrow> texts \<Rightarrow> releaseContext \<Rightarrow> string io" where
  "getReleaseNotesBody orc T context =
     (let ch = getProp (Some (c_config context)) ''changelog'';
          version = c_version context
      in
      case getProp ch ''releaseNotesCommand'' of
        Some (JStr command) \<Rightarrow>
          if command \<noteq> [] then
            bind (runChangelogCommand orc T command
                    (commandVars (c_latestTag context) version (c_currentVersion context)))
              (\<lambda>body. ret (if body \<noteq> [] then body
                            else ''## '' @ version @ '' - '' @ c_dateStr context @ [CHR 0x0A, CHR 0x0A] @
                                 joinWith [CHR 0x0A] (map (\<lambda>c. ''- '' @ c) (c_commits context))))
          else ret (''## '' @ version @ '' - '' @ c_dateStr context @ [CHR 0x0A, CHR 0x0A] @
                    filterAndFormatCommits T ch (c_commits context))
      | _ \<Rightarrow> ret (''## '' @ version @ '' - '' @ c_dateStr context @ [CHR 0x0A, CHR 0x0A] @
                  filterAndFormatCommits T ch (c_commits context)))"

definition initScalars :: "string \<Rightarrow> bool \<Rightarrow> bool \<Rightarrow> bool \<Rightarrow> (string \<times> string) list" where
  \<comment> \<open>the scalar entries of \<open>initContext\<close>\<close>
  "initScalars cwd dryRun isCi verbose =
     [(''cwd'', cwd), (''dryRun'', boolStr dryRun), (''isCi'', boolStr isCi), (''verbose'', boolStr verbose)]"

definition contextScalars :: "releaseContext \<Rightarrow> (string \<times> string) list" where
  \<comment> \<open>the scalar entries of the release context, in the order of its literal\<close>
  "contextScalars c =
     [(''cwd'', c_cwd c), (''dryRun'', boolStr (c_dryRun c)), (''isCi'', boolStr (c_isCi c)),
      (''verbose'', boolStr (c_verbose c)), (''currentBranch'', c_currentBranch c),
      (''branchName'', c_currentBranch c), (''currentVersion'', c_currentVersion c),
      (''newVersion'', c_version c), (''version'', c_version c), (''latestVersion'', c_currentVersion c)]
     @ (case c_latestTag c of None \<Rightarrow> [] | Some t \<Rightarrow> [(''latestTag'', t)])
     @ (case c_bump c of None \<Rightarrow> [] | Some b \<Rightarrow> [(''bump'', b)])
     @ [(''projectName'', c_projectName c), (''name'', c_projectName c), (''dateStr'', c_dateStr c),
        (''tagName'', c_tagName c)]
     @ (case c_releaseUrl c of None \<Rightarrow> [] | Some u \<Rightarrow> [(''releaseUrl'', u)])
     @ [(''changelogText'', c_changelogText c), (''changelog'', c_changelogText c)]"

definition goOn :: "'a flow io \<Rightarrow> ('a \<Rightarrow> 'b flow io) \<Rightarrow> 'b flow io" where
  \<comment> \<open>the next step runs unless the process has exited\<close>
  "goOn m f = bind m (\<lambda>r. case r of Go x \<Rightarrow> f x | ExitWith n \<Rightarrow> ret (ExitWith n) | OutsideModel \<Rightarrow> ret OutsideModel)"

definition go :: "'a io \<Rightarrow> 'a flow io" where
  "go m = bind m (\<lambda>x. ret (Go x))"

definition notAllowed :: "json \<Rightarrow> string \<Rightarrow> bool" where
  \<comment> \<open>\<open>Array.isArray(a) && a.length > 0 && !a.includes(currentBranch)\<close>\<close>
  "notAllowed config branch =
     (case getProp (Some config) ''allowReleaseFrom'' of
        Some (JArr xs) \<Rightarrow> xs \<noteq> [] \<and> JStr branch \<notin> set xs
      | _ \<Rightarrow> False)"

record plan =
  pl_plugins :: "plugin list"
  pl_currentVersion :: jsval
  pl_projectName :: string
  pl_currentBranch :: string
  pl_bump :: "string option"
  pl_commits :: "string list"
  pl_suggested :: "string option"
  pl_preId :: "json option"

definition preflight :: "world \<Rightarrow> string \<Rightarrow> json \<Rightarrow> argv \<Rightarrow> plan flow io" where
  \<comment> \<open>\<open>run\<close> before its promise chain: an error here is an uncaught exception. A version that
      is no string has no \<open>split\<close>: \<open>increaseVersion\<close> throws a \<open>TypeError\<close> on it.\<close>
  "preflight W cwd config argv =
     (let orc = w_outside W; T = w_texts W; repo = w_repo W;
          dryRun = effectiveDryRun config argv;
          isCi = isCiOf config argv;
          useGitFlow = useGitFlowOf config argv;
          verbose = argv_verbose argv;
          preId = orElse (argv_preid argv)
                    (orElse (getProp (getProp (Some config) ''preRelease'') ''id'') (Some JNull))
      in
      andThen (if dryRun then emit (Log ''Running in dry-run mode. No changes will be made.'') else ret ())
     (bind (loadPlugins orc (w_require W) (getProp (Some config) ''plugins''))
        (\<lambda>plugins.
      andThen (runPluginLifecycle orc plugins ''init'')
     (andThen (runHooks orc T (getProp (getProp (Some config) ''hooks'') ''beforeInit'')
                 (initScalars cwd dryRun isCi verbose) dryRun)
     (bind (getCurrentVersion (w_platform W) cwd)
        (\<lambda>(currentVersion, projectName).
      if argv_releaseVersion argv then
        (case currentVersion of
           Str version \<Rightarrow>
             (case increaseVersion version
                     (if isSet (argv_bump argv) then the (argv_bump argv)
                      else strOr (getProp (Some config) ''bump'') ''patch'')
                     (toPreId preId) of
                None \<Rightarrow> ret OutsideModel
              | Some next \<Rightarrow> andThen (emit (Log next)) (ret (ExitWith 0)))
         | _ \<Rightarrow> throw ''currentVersion.split is not a function'')
      else if argv_changelog argv then
        andThen (ensureOriginRemote repo)
       (bind (getNewCommits repo)
          (\<lambda>commits.
        bind (getLatestTag repo)
          (\<lambda>tag.
        case currentVersion of
          Str version \<Rightarrow>
            bind (getChangelogText orc T config commits version version tag)
              (\<lambda>text. andThen (emit (Log text)) (ret (ExitWith 0)))
        | _ \<Rightarrow> ret OutsideModel)))
      else
        andThen (ensureOriginRemote repo)
       (andThen (if truthy (getProp (Some config) ''requireCleanWorkingDir'') then ensureCleanWorkingTree repo else ret ())
       (andThen (if useGitFlow then ensureGitFlowInstalled repo else ret ())
       (bind (getCurrentBranch repo)
          (\<lambda>branch.
        andThen (ensureUpstream repo branch
                   (getProp (getProp (Some config) ''git'') ''requireUpstream'' = Some (JBool True)))
       (if notAllowed config branch then
          andThen (emit (Err (''Cannot release from branch \"'' @ branch @ ''\". Allowed: ''
                     @ joinWith '', '' (strList (getProp (Some config) ''allowReleaseFrom'')) @ ''.'')))
            (ret (ExitWith 1))
        else
          bind (getNewCommits repo)
            (\<lambda>commits. ret (Go \<lparr> pl_plugins = plugins, pl_currentVersion = currentVersion,
                pl_projectName = projectName, pl_currentBranch = branch,
                pl_bump = (if isSet (argv_bump argv) then argv_bump argv
                           else if isCi \<or> truthy (getProp (Some config) ''bump'')
                           then Some (strOr (getProp (Some config) ''bump'') ''patch'') else None),
                pl_commits = commits,
                pl_suggested = (if truthy (getProp (Some config) ''conventionalCommits'')
                                then suggestBumpFromCommits commits else None),
                pl_preId = preId \<rparr>)))))))))))))"

record decision =
  d_currentVersion :: string
  d_newVersion :: string
  d_bump :: "string option"
  d_dateStr :: string

definition resolveVersion :: "world \<Rightarrow> json \<Rightarrow> argv \<Rightarrow> plan \<Rightarrow> decision flow io" where
  \<comment> \<open>the first three steps of the promise chain, up to the new version\<close>
  "resolveVersion W config argv plan =
     (let isCi = isCiOf config argv;
          noIncrement = argv_noIncrement argv;
          dateStr = formatDate (w_texts W)
                      (strOr (getProp (getProp (Some config) ''changelog'') ''dateLocale'') ''fa-IR'')
      in
      if noIncrement then
        (case pl_currentVersion plan of
           Str version \<Rightarrow>
             ret (Go \<lparr> d_currentVersion = version, d_newVersion = version, d_bump = pl_bump plan,
                       d_dateStr = dateStr \<rparr>)
         | _ \<Rightarrow> ret OutsideModel)
      else
        bind (if isSet (pl_bump plan) then ret (the (pl_bump plan))
              else if isCi then ret ''patch''
              else andThen (emit (Did (Ask ''bump''))) (ret (w_selectBump W (pl_suggested plan))))
          (\<lambda>resolvedBump.
        bind (if resolvedBump = ''prerelease'' then
                (if \<not> truthy (pl_preId plan) \<and> \<not> isCi
                 then andThen (emit (Did (Ask ''preid'')))
                        (ret (''patch'', case w_selectPreId W of None \<Rightarrow> Some JNull | Some i \<Rightarrow> Some (JStr i)))
                 else ret (''patch'', pl_preId plan))
              else ret (resolvedBump, pl_preId plan))
          (\<lambda>(bump, preId).
             case pl_currentVersion plan of
               Str version \<Rightarrow>
                 (case increaseVersion version (if bump = [] then ''patch'' else bump) (toPreId preId) of
                    None \<Rightarrow> ret OutsideModel
                  | Some newVersion \<Rightarrow>
                      ret (Go \<lparr> d_currentVersion = version, d_newVersion = newVersion, d_bump = Some bump,
                                d_dateStr = dateStr \<rparr>))
             | _ \<Rightarrow> throw ''currentVersion.split is not a function'')))"

definition dryRunLine :: "argv \<Rightarrow> plan \<Rightarrow> decision \<Rightarrow> string" where
  "dryRunLine argv plan dec =
     ''[dry-run] Would release '' @ d_newVersion dec @ '' (bump: ''
       @ (if argv_noIncrement argv then ''none'' else (case d_bump dec of None \<Rightarrow> ''null'' | Some b \<Rightarrow> b))
       @ '') from '' @ pl_currentBranch plan @ ''.''"

definition confirmRelease :: "world \<Rightarrow> bool \<Rightarrow> bool \<Rightarrow> bool io" where
  "confirmRelease W isCi yes =
     (if isCi \<or> yes then ret True else andThen (emit (Did (Ask ''confirm''))) (ret (w_confirm W)))"

definition githubStep :: "world \<Rightarrow> releaseContext \<Rightarrow> string option io" where
  \<comment> \<open>the GitHub release with its \<open>then\<close> and \<open>catch\<close>: the value is \<open>context.releaseUrl\<close> after it\<close>
  "githubStep W context =
     (let github = getProp (Some (c_config context)) ''github'' in
      if truthy (getProp github ''release'') then
        catch (createGitHubRelease (w_outside W) (w_texts W) (w_platform W) (c_tagName context)
                 (''Release '' @ c_version context) github False)
          (\<lambda>err. andThen (emit (Warn (''GitHub release failed: '' @ err))) (ret None))
      else ret None)"

definition gitlabStep :: "world \<Rightarrow> releaseContext \<Rightarrow> string option \<Rightarrow> string option io" where
  \<comment> \<open>the GitLab release, on the \<open>context.releaseUrl\<close> the GitHub step left\<close>
  "gitlabStep W context releaseUrl =
     (let gitlab = getProp (Some (c_config context)) ''gitlab'' in
      if truthy (getProp gitlab ''release'') then
        catch (bind (createGitLabRelease (w_outside W) (w_texts W) (w_platform W) (c_tagName context)
                       (''Release '' @ c_version context) gitlab False)
                 (\<lambda>url. ret (if isSet url then (if isSet releaseUrl then releaseUrl else url) else releaseUrl)))
          (\<lambda>err. andThen (emit (Warn (''GitLab release failed: '' @ err))) (ret releaseUrl))
      else ret releaseUrl)"

definition publication :: "world \<Rightarrow> string \<Rightarrow> plugin list \<Rightarrow> releaseContext \<Rightarrow> string option io" where
  \<comment> \<open>the registry and the two providers, then the last plugin and hook phases\<close>
  "publication W cwd plugins context =
     (let config = c_config context in
      andThen (if truthy (getProp (getProp (Some config) ''npm'') ''publish'')
               then npmPublish (w_outside W) (w_platform W) cwd (getProp (Some config) ''npm'') False
               else ret ())
     (bind (githubStep W context)
        (\<lambda>url1.
      bind (gitlabStep W context url1)
        (\<lambda>url2.
      andThen (runPluginLifecycle (w_outside W) plugins ''release'')
     (andThen (runHooks (w_outside W) (w_texts W) (getProp (getProp (Some config) ''hooks'') ''afterRelease'')
                 (contextScalars (context\<lparr>c_releaseUrl := url2\<rparr>)) False)
     (andThen (runPluginLifecycle (w_outside W) plugins ''afterRelease'')
              (ret url2)))))))"

definition releaseSteps :: "world \<Rightarrow> string \<Rightarrow> json \<Rightarrow> argv \<Rightarrow> plan \<Rightarrow> decision \<Rightarrow> string option io" where
  \<comment> \<open>the fourth step of the promise chain: the release itself\<close>
  "releaseSteps W cwd config argv plan dec =
     (let orc = w_outside W; T = w_texts W; repo = w_repo W;
          newVersion = d_newVersion dec;
          tagConfig = (if truthy (getProp (Some config) ''tag'') then getProp (Some config) ''tag'' else Some (JObj []))
      in
      bind (getLatestTag repo)
        (\<lambda>tag.
      let context0 = \<lparr> c_cwd = cwd, c_config = config, c_dryRun = False, c_isCi = isCiOf config argv,
                       c_verbose = argv_verbose argv, c_currentBranch = pl_currentBranch plan,
                       c_currentVersion = d_currentVersion dec, c_version = newVersion,
                       c_latestTag = tag, c_bump = d_bump dec, c_commits = pl_commits plan,
                       c_projectName = pl_projectName plan, c_dateStr = d_dateStr dec,
                       c_tagName = tagNameOf config newVersion, c_releaseUrl = None, c_changelogText = [] \<rparr>
      in
      bind (getChangelogText orc T config (pl_commits plan) newVersion (d_currentVersion dec) tag)
        (\<lambda>changelogText.
           (let context = context0\<lparr>c_changelogText := changelogText\<rparr> in
            andThen (runPluginLifecycle orc (pl_plugins plan) ''beforeRelease'')
           (andThen (runHooks orc T (getProp (getProp (Some config) ''hooks'') ''beforeRelease'')
                       (contextScalars context) False)
           (andThen (if truthy (getProp tagConfig ''deleteIfExists'')
                     then ensureTagNotExists orc newVersion tagConfig False else ret ())
           (andThen (if useGitFlowOf config argv
                     then andThen (if truthy (getProp (Some config) ''syncBranches'')
                                   then syncBranches orc context else ret ())
                            (performGitFlowRelease orc T context)
                     else performLinearRelease orc T repo context)
           (andThen (runHooks orc T (getProp (getProp (Some config) ''hooks'') ''afterGitRelease'')
                       (contextScalars context) False)
           (andThen (runHooks orc T (getProp (getProp (Some config) ''hooks'') ''afterBump'')
                       (contextScalars context) False)
           (andThen (getReleaseNotesBody orc T context)
                    (publication W cwd (pl_plugins plan) context)))))))))))"

definition promiseChain :: "world \<Rightarrow> string \<Rightarrow> json \<Rightarrow> argv \<Rightarrow> plan \<Rightarrow> unit flow io" where
  "promiseChain W cwd config argv plan =
     goOn (resolveVersion W config argv plan)
       (\<lambda>dec.
          if effectiveDryRun config argv then
            andThen (emit (Log (dryRunLine argv plan dec))) (ret (ExitWith 0))
          else
            bind (confirmRelease W (isCiOf config argv) (argv_yes argv \<or> argv_onlyVersion argv))
              (\<lambda>confirmed.
                 if \<not> confirmed then andThen (emit (Log ''Release cancelled.'')) (ret (ExitWith 0))
                 else andThen (releaseSteps W cwd config argv plan dec)
                        (andThen (emit (Log ''Release completed successfully.'')) (ret (Go ())))))"

definition run :: "world \<Rightarrow> string \<Rightarrow> json \<Rightarrow> argv \<Rightarrow> status \<times> event list" where
  \<comment> \<open>\<open>run\<close> on the configuration and the options \<open>loadConfig\<close> returned\<close>
  "run W cwd config argv =
     (case preflight W cwd config argv [] of
        (Inl e, tr) \<Rightarrow> (Uncaught e, tr)
      | (Inr (ExitWith n), tr) \<Rightarrow> (Exited n, tr)
      | (Inr OutsideModel, tr) \<Rightarrow> (Unmodelled, tr)
      | (Inr (Go plan), tr) \<Rightarrow>
          (case promiseChain W cwd config argv plan tr of
             (Inl e, tr') \<Rightarrow> (Exited 1, tr' @ [Err (''Error: '' @ e)])
           | (Inr (ExitWith n), tr') \<Rightarrow> (Exited n, tr')
           | (Inr OutsideModel, tr') \<Rightarrow> (Unmodelled, tr')
           | (Inr (Go u), tr') \<Rightarrow> (Completed, tr')))"

section \<open>Notions used by the properties\<close>






definition fails :: "'a io \<Rightarrow> bool" where
  \<comment> \<open>a computation that throws an error, whatever the trace\<close>
  "fails m = (\<forall>tr. isl (fst (m tr)))"

definition endsWithOne :: "'a flow io \<Rightarrow> bool" where
  \<comment> \<open>a step that ends the process with exit code 1, by an error or by \<open>process.exit(1)\<close>\<close>
  "endsWithOne m = (\<forall>tr. case fst (m tr) of Inl e \<Rightarrow> True | Inr (ExitWith n) \<Rightarrow> n = 1 | Inr _ \<Rightarrow> False)"



definition neverFails :: "'a io \<Rightarrow> bool" where
  \<comment> \<open>a computation that throws no error, whatever the trace and the answers\<close>
  "neverFails m = (\<forall>tr. \<not> isl (fst (m tr)))"

section \<open>Example inputs\<close>

text \<open>
  A platform with POSIX paths and, in the directory \<open>/repo\<close>, a \<open>package.json\<close> at
  version 1.2.3; \<open>JSON.parse\<close> is given on the texts the examples use.
\<close>

definition exampleParse :: "string \<Rightarrow> string + json" where
  "exampleParse text =
     (if text = ''{\"name\": \"demo\", \"version\": \"1.2.3\"}''
      then Inr (JObj [(''name'', JStr ''demo''), (''version'', JStr ''1.2.3'')])
      else if text = ''{\"dryRun\": false}'' then Inr (JObj [(''dryRun'', JBool False)])
      else if text = ''{\"gitFlow\": false, \"npm\": {\"publish\": true}, \"github\": {\"release\": true}}''
      then Inr (JObj [(''gitFlow'', JBool False), (''npm'', JObj [(''publish'', JBool True)]),
                      (''github'', JObj [(''release'', JBool True)])])
      else if text = ''{\"allowReleaseFrom\": [\"main\"]}''
      then Inr (JObj [(''allowReleaseFrom'', JArr [JStr ''main''])])
      else if text = ''{\"name\": \"demo\", \"version\": \"1.3.0\"}''
      then Inr (JObj [(''name'', JStr ''demo''), (''version'', JStr ''1.3.0'')])
      else if text = ''{\"hooks\": {\"beforeInit\": [\"git pull\"]}}''
      then Inr (JObj [(''hooks'', JObj [(''beforeInit'', JArr [JStr ''git pull''])])])
      else Inl ''Unexpected token'')"

definition examplePlatform :: "(string \<times> string) list \<Rightarrow> platform" where
  \<comment> \<open>the files of \<open>/repo\<close> beside \<open>package.json\<close> are given by name and text\<close>
  "examplePlatform repoFiles =
     \<lparr> isAbsolute = (\<lambda>p. startsWith p ''/''),
       pathJoin = (\<lambda>a b. a @ ''/'' @ b),
       jsonParse = exampleParse,
       files = (\<lambda>p. if p = ''/repo/package.json'' then Some (File ''{\"name\": \"demo\", \"version\": \"1.2.3\"}'')
                     else map_option File (map_of (map (\<lambda>(n, t). (''/repo/'' @ n, t)) repoFiles) p)),
       env = (\<lambda>v. None) \<rparr>"

definition exampleTexts :: texts where
  "exampleTexts =
     \<lparr> interpolate = (\<lambda>template entries. template),
       replaceVersion = (\<lambda>template version. template),
       formatDate = (\<lambda>locale. ''02/17/2026''),
       filterAndFormatCommits = (\<lambda>options commits. joinWith [CHR 0x0A] (map (\<lambda>c. ''- '' @ c) commits)),
       githubRepoOf = (\<lambda>url. None),
       gitlabRepoOf = (\<lambda>url. None) \<rparr>"

definition exampleRepo :: "string \<Rightarrow> snapshot" where
  "exampleRepo branch =
     \<lparr> originExists = True, workingTreeClean = True, gitFlowInstalled = True, currentBranch = branch,
       hasUpstream = True, newCommits = Inr [''fix: a bug''], latestTag = Some ''v1.2.3'' \<rparr>"

definition exampleWorld :: "(string \<times> string) list \<Rightarrow> string \<Rightarrow> outside \<Rightarrow> world" where
  \<comment> \<open>a world in which no action changes what is read\<close>
  "exampleWorld repoFiles branch orc =
     \<lparr> w_platform = (\<lambda>acts. examplePlatform repoFiles), w_outside = orc, w_texts = exampleTexts,
       w_repo = (\<lambda>acts. exampleRepo branch), w_require = (\<lambda>p. Inl ''Cannot find module''),
       w_selectBump = (\<lambda>suggested. ''patch''), w_selectPreId = None, w_confirm = True \<rparr>"

definition allSucceed :: outside where
  "allSucceed tr a = Inr []"

definition exampleContext :: "string \<Rightarrow> releaseContext" where
  "exampleContext branch =
     \<lparr> c_cwd = ''/repo'', c_config = getDefaults, c_dryRun = False, c_isCi = True, c_verbose = False,
       c_currentBranch = branch, c_currentVersion = ''1.2.3'', c_version = ''1.2.4'',
       c_latestTag = Some ''v1.2.3'', c_bump = Some ''patch'', c_commits = [''fix: a bug''],
       c_projectName = ''demo'', c_dateStr = ''02/17/2026'', c_tagName = ''v1.2.4'',
       c_releaseUrl = None, c_changelogText = ''- fix: a bug'' \<rparr>"

definition invocation :: "platform \<Rightarrow> string list \<Rightarrow> json \<times> argv" where
  \<comment> \<open>what \<open>loadConfig\<close> returns in \<open>/repo\<close>, where it returns\<close>
  "invocation P args = projr (fst (loadConfig P ''/repo'' args []))"

definition rejectFirstPush :: outside where
  \<comment> \<open>git rejects the first push of the release branch and says why on its standard error;
      everything else succeeds\<close>
  "rejectFirstPush tr a =
     (if a = Exec ''git push origin HEAD --follow-tags'' \<and> Did a \<notin> set tr
      then Inl ''! [rejected] HEAD -> release/1.2.4 (non-fast-forward)''
      else Inr [])"

definition npmFails :: outside where
  \<comment> \<open>the registry refuses the publication; everything else succeeds\<close>
  "npmFails tr a = (if a = Exec ''npm publish --tag latest'' then Inl ''npm ERR! 403 Forbidden'' else Inr [])"

definition publishingRepo :: "(string \<times> string) list" where
  \<comment> \<open>a linear workflow that publishes to the registry and creates a GitHub release\<close>
  "publishingRepo =
     [(''.reliz.json'', ''{\"gitFlow\": false, \"npm\": {\"publish\": true}, \"github\": {\"release\": true}}'')]"



definition tokenWorld :: "outside \<Rightarrow> world" where
  \<comment> \<open>as \<open>exampleWorld [] ''develop''\<close>, with the tokens of the two providers in the environment
      and an \<open>origin\<close> both expressions read a project from\<close>
  "tokenWorld orc =
     (exampleWorld [] ''develop'' orc)
       \<lparr> w_platform := (\<lambda>acts. (examplePlatform [])
            \<lparr> env := (\<lambda>v. if v = ''GITHUB_TOKEN'' then Some ''ghp_example''
                           else if v = ''GITLAB_TOKEN'' then Some ''glpat_example'' else None) \<rparr>),
         w_texts := exampleTexts \<lparr> githubRepoOf := (\<lambda>url. Some ''acme/demo''),
                                  gitlabRepoOf := (\<lambda>url. Some ''acme/demo'') \<rparr> \<rparr>"

definition githubFails :: outside where
  \<comment> \<open>GitHub refuses the token, GitLab creates the release; everything else succeeds\<close>
  "githubFails tr a =
     (case a of
        CreateGitHubRelease repo tag \<Rightarrow> Inl ''GitHub API 401: Bad credentials''
      | CreateGitLabRelease repo tag \<Rightarrow> Inr ''https://gitlab.com/acme/demo/-/releases/v1.2.4''
      | _ \<Rightarrow> Inr [])"

definition publishingContext :: releaseContext where
  \<comment> \<open>releases on both providers, and a hook after them\<close>
  "publishingContext =
     (exampleContext ''develop'')
       \<lparr> c_config := JObj [(''github'', JObj [(''release'', JBool True)]),
                            (''gitlab'', JObj [(''release'', JBool True)]),
                            (''hooks'', JObj [(''afterRelease'', JArr [JStr ''echo released''])])] \<rparr>"

definition notifier :: plugin where
  "notifier = \<lparr> pl_name = ''notifier'', pl_methods = [''release'', ''afterRelease''] \<rparr>"




section \<open>Properties of version.js\<close>

lemma code_lt_256: "code c < 256"
  unfolding code_def by (cases c) simp

lemma code_char_of: "n < 256 \<Longrightarrow> code (char_of n) = n"
  by (simp add: code_def)

lemma code_lowerChar: "isUpper c \<Longrightarrow> code (lowerChar c) = code c + 32"
proof -
  assume u: "isUpper c"
  then have "code c + 32 < 256" by (auto simp: isUpper_def)
  with u show ?thesis by (simp add: lowerChar_def code_char_of)
qed

lemma isSpace_lowerChar: "isSpace (lowerChar c) = isSpace c"
proof (cases "isUpper c")
  case True
  from True have "\<not> isSpace c" by (auto simp: isUpper_def isSpace_def)
  moreover from True have "\<not> isSpace (lowerChar c)"
    by (auto simp: code_lowerChar isUpper_def isSpace_def)
  ultimately show ?thesis by simp
next
  case False
  then show ?thesis by (simp add: lowerChar_def)
qed

lemma lowerChar_idem: "lowerChar (lowerChar c) = lowerChar c"
proof (cases "isUpper c")
  case True
  then have "\<not> isUpper (lowerChar c)"
    by (auto simp: code_lowerChar isUpper_def[of "lowerChar c"] isUpper_def[of c])
  then show ?thesis by (simp add: lowerChar_def[of "lowerChar c"])
next
  case False
  then show ?thesis by (simp add: lowerChar_def)
qed

lemma toLowerCase_idem: "toLowerCase (toLowerCase s) = toLowerCase s"
  by (simp add: toLowerCase_def lowerChar_idem)

lemma trim_toLowerCase: "trim (toLowerCase s) = toLowerCase (trim s)"
proof -
  have c: "isSpace \<circ> lowerChar = isSpace"
    by (rule ext) (simp add: isSpace_lowerChar)
  show ?thesis
    by (simp add: trim_def toLowerCase_def dropWhile_map rev_map c)
qed

lemma trim_idem: "trim (trim s) = trim s"
proof -
  define d where "d = dropWhile isSpace s"
  define e where "e = dropWhile isSpace (rev d)"
  have t: "trim s = rev e" by (simp add: trim_def d_def e_def)
  have keep: "dropWhile isSpace (rev e) = rev e"
  proof (cases "e = []")
    case True
    then show ?thesis by simp
  next
    case False
    have "rev d = takeWhile isSpace (rev d) @ e" by (simp add: e_def)
    then have "d = rev e @ rev (takeWhile isSpace (rev d))"
      by (metis rev_append rev_rev_ident)
    with False have hd: "hd d = hd (rev e)" and dne: "d \<noteq> []"
      by (metis hd_append2 rev_is_Nil_conv, metis Nil_is_append_conv rev_is_Nil_conv)
    from dne have "\<not> isSpace (hd d)" unfolding d_def by (rule hd_dropWhile)
    with hd have "\<not> isSpace (hd (rev e))" by simp
    with False show ?thesis by (cases "rev e") auto
  qed
  have "dropWhile isSpace e = e" by (simp add: e_def)
  with keep have "trim (rev e) = rev e" by (simp add: trim_def)
  with t show ?thesis by simp
qed

lemma normalise_fixed: "trim (toLowerCase (trim p)) = toLowerCase (trim p)"
  by (simp add: trim_toLowerCase trim_idem)

lemma trim_Nil_iff: "trim p = [] \<longleftrightarrow> (\<forall>c \<in> set p. isSpace c)"
proof
  assume "trim p = []"
  then have a: "\<forall>c \<in> set (dropWhile isSpace p). isSpace c"
    by (simp add: trim_def)
  have "dropWhile isSpace p = []"
  proof (rule ccontr)
    assume ne: "dropWhile isSpace p \<noteq> []"
    then have "\<not> isSpace (hd (dropWhile isSpace p))" by (rule hd_dropWhile)
    moreover from ne a have "isSpace (hd (dropWhile isSpace p))"
      by (cases "dropWhile isSpace p") auto
    ultimately show False by simp
  qed
  then show "\<forall>c \<in> set p. isSpace c" by simp
next
  assume "\<forall>c \<in> set p. isSpace c"
  then show "trim p = []" by (auto simp: trim_def dest: set_dropWhileD)
qed

lemma showNat_digits: "c \<in> set (showNat n) \<Longrightarrow> isDigit c"
proof (induction n rule: showNat.induct)
  case (1 n)
  show ?case
  proof (cases "n < 10")
    case True
    with "1.prems" have "c = char_of (48 + n)" by (simp add: showNat.simps[of n])
    moreover from True have "48 + n < (256::nat)" by simp
    ultimately have "code c = 48 + n" by (simp add: code_def)
    with True show ?thesis by (simp add: isDigit_def)
  next
    case False
    with "1.prems" have "c \<in> set (showNat (n div 10)) \<or> c = char_of (48 + n mod 10)"
      by (auto simp: showNat.simps[of n])
    then show ?thesis
    proof
      assume "c \<in> set (showNat (n div 10))"
      with "1.IH" False show ?thesis by simp
    next
      assume c: "c = char_of (48 + n mod 10)"
      have "48 + n mod 10 < (256::nat)" by simp
      then have "code c = 48 + n mod 10" using c by (simp add: code_def)
      then show ?thesis by (simp add: isDigit_def)
    qed
  qed
qed

lemma showNum_no_hyphen: "CHR ''-'' \<notin> set (showNum x)"
proof (cases x)
  case (Num n)
  have "\<not> isDigit CHR ''-''" by (simp add: isDigit_def code_def)
  with showNat_digits[of "CHR ''-''" n] Num show ?thesis by auto
next
  case NaN
  then show ?thesis by simp
qed

lemma showParts_no_hyphen: "showParts ns = Some r \<Longrightarrow> CHR ''-'' \<notin> set r"
proof -
  assume a: "showParts ns = Some r"
  then have r: "r = concat (map (\<lambda>(i, n). (if i = 0 then [] else ''.'') @ showNum (the n)) (enumerate 0 ns))"
    by (simp add: showParts_def split: if_splits)
  have "CHR ''-'' \<notin> set ((if i = 0 then [] else ''.'') @ showNum (the n))" for i :: nat and n
    using showNum_no_hyphen[of "the n"] by simp
  then show ?thesis unfolding r by auto
qed

lemma bumpBase_showParts: "\<exists>ns. bumpBase cv ty = showParts ns"
proof -
  consider "ty = ''major''" | "ty = ''minor''" | "ty = ''patch''"
    | "ty = ''hotfix''" | "ty = ''build''"
    | "ty \<noteq> ''major''" "ty \<noteq> ''minor''" "ty \<noteq> ''patch''" "ty \<noteq> ''hotfix''" "ty \<noteq> ''build''"
    by blast
  then show ?thesis
  proof cases
    case 1
    then show ?thesis by (simp add: bumpBase_def Let_def) (rule exI, rule refl)
  next
    case 2
    then show ?thesis by (simp add: bumpBase_def Let_def) (rule exI, rule refl)
  next
    case 3
    then show ?thesis by (simp add: bumpBase_def Let_def) (rule exI, rule refl)
  next
    case 4
    then show ?thesis
      by (cases "length (split_js CHR ''.'' cv) = 3")
         ((simp add: bumpBase_def Let_def, (rule exI, rule refl))+)
  next
    case 5
    then show ?thesis
      by (cases "length (split_js CHR ''.'' cv) = 3")
         ((simp add: bumpBase_def Let_def, (rule exI, rule refl))+)
  next
    case 6
    then show ?thesis by (simp add: bumpBase_def Let_def) (rule exI, rule refl)
  qed
qed

lemma bumpBase_no_hyphen: "bumpBase cv ty = Some r \<Longrightarrow> CHR ''-'' \<notin> set r"
  using bumpBase_showParts[of cv ty] showParts_no_hyphen by metis

lemma scanCommits_flags:
  "scanCommits msgs (b, f, x) =
     (b \<or> (\<exists>m \<in> set msgs. reBreaking (firstLineOf m)),
      f \<or> (\<exists>m \<in> set msgs. \<not> reBreaking (firstLineOf m) \<and> reFeat (firstLineOf m)),
      x \<or> (\<exists>m \<in> set msgs. \<not> reBreaking (firstLineOf m) \<and> \<not> reFeat (firstLineOf m) \<and> reFix (firstLineOf m)))"
proof (induction msgs arbitrary: b f x)
  case Nil
  show ?case by simp
next
  case (Cons msg rest)
  show ?case
    by (auto simp: Cons.IH Let_def)
qed

lemma suggestBump_cases0:
  "suggestBumpFromCommits msgs =
     (if \<exists>m \<in> set msgs. reBreaking (firstLineOf m) then Some ''major''
      else if \<exists>m \<in> set msgs. reFeat (firstLineOf m) then Some ''minor''
      else if \<exists>m \<in> set msgs. reFix (firstLineOf m) then Some ''patch''
      else None)"
  unfolding suggestBumpFromCommits_def scanCommits_flags
  by (simp only: split: prod.split) auto


text \<open>
  C2. The examples of the specification: from \<open>1.2.3\<close>, a major bump gives \<open>2.0.0\<close>, a
  minor bump \<open>1.3.0\<close>, a patch bump \<open>1.2.4\<close>, a hotfix \<open>1.2.3.1\<close>, a patch bump with the
  pre-release identifier \<open>beta\<close> gives \<open>1.2.4-beta.0\<close>, and from \<open>1.2.4-beta.0\<close> the same
  bump gives \<open>1.2.4-beta.1\<close>.
\<close>

theorem increaseVersion_examples:
  "increaseVersion ''1.2.3'' ''major'' Null = Some ''2.0.0'' \<and>
   increaseVersion ''1.2.3'' ''minor'' Null = Some ''1.3.0'' \<and>
   increaseVersion ''1.2.3'' ''patch'' Null = Some ''1.2.4'' \<and>
   increaseVersion ''1.2.3'' ''hotfix'' Null = Some ''1.2.3.1'' \<and>
   increaseVersion ''1.2.3'' ''patch'' (Str ''beta'') = Some ''1.2.4-beta.0'' \<and>
   increaseVersion ''1.2.4-beta.0'' ''patch'' (Str ''beta'') = Some ''1.2.4-beta.1''"
proof -
  have "increaseVersion ''1.2.3'' ''major'' Null = Some ''2.0.0''" by code_simp
  moreover have "increaseVersion ''1.2.3'' ''minor'' Null = Some ''1.3.0''" by code_simp
  moreover have "increaseVersion ''1.2.3'' ''patch'' Null = Some ''1.2.4''" by code_simp
  moreover have "increaseVersion ''1.2.3'' ''hotfix'' Null = Some ''1.2.3.1''" by code_simp
  moreover have "increaseVersion ''1.2.3'' ''patch'' (Str ''beta'') = Some ''1.2.4-beta.0''"
    by code_simp
  moreover have "increaseVersion ''1.2.4-beta.0'' ''patch'' (Str ''beta'') = Some ''1.2.4-beta.1''"
    by code_simp
  ultimately show ?thesis by simp
qed

text \<open>
  C3. A bump is meant to give a version greater than the current one, for a current
  version with or without a pre-release segment. On a current version that carries a
  pre-release segment, a patch bump without a pre-release identifier does not: the third
  component \<open>4-beta\<close> is not a number, and the result is \<open>1.2.NaN\<close>, which is no version.
\<close>

theorem increaseVersion_prerelease_patch_is_NaN:
  "increaseVersion ''1.2.4-beta.0'' ''patch'' Null = Some ''1.2.NaN''"
  by code_simp

text \<open>
  C4. \<open>suggestBumpFromCommits\<close> answers \<open>major\<close> when the first line of some message
  matches the breaking-change expression, else \<open>minor\<close> when some first line matches the
  \<open>feat\<close> expression, else \<open>patch\<close> when some first line matches the \<open>fix\<close> expression,
  else nothing; the position of the messages in the list plays no role. The four examples
  of the specification hold.
\<close>

theorem suggestBump_precedence:
  "suggestBumpFromCommits msgs =
     (if \<exists>m \<in> set msgs. reBreaking (firstLineOf m) then Some ''major''
      else if \<exists>m \<in> set msgs. reFeat (firstLineOf m) then Some ''minor''
      else if \<exists>m \<in> set msgs. reFix (firstLineOf m) then Some ''patch''
      else None)
   \<and> suggestBumpFromCommits [''fix: x''] = Some ''patch''
   \<and> suggestBumpFromCommits [''feat: y'', ''fix: x''] = Some ''minor''
   \<and> suggestBumpFromCommits [''feat!: z''] = Some ''major''
   \<and> suggestBumpFromCommits [''chore: w''] = None"
proof -
  have "suggestBumpFromCommits [''fix: x''] = Some ''patch''" by code_simp
  moreover have "suggestBumpFromCommits [''feat: y'', ''fix: x''] = Some ''minor''" by code_simp
  moreover have "suggestBumpFromCommits [''feat!: z''] = Some ''major''" by code_simp
  moreover have "suggestBumpFromCommits [''chore: w''] = None" by code_simp
  ultimately show ?thesis using suggestBump_cases0[of msgs] by simp
qed

theorem suggestBump_precedence_witness:
  "reFix (firstLineOf ''fix: late'') \<and> reBreaking (firstLineOf ''refactor(api)!: drop v1'')
   \<and> suggestBumpFromCommits [''fix: late'', ''docs: readme'', ''refactor(api)!: drop v1''] = Some ''major''"
proof -
  have a: "reFix (firstLineOf ''fix: late'')" by code_simp
  have b: "reBreaking (firstLineOf ''refactor(api)!: drop v1'')" by code_simp
  from b have "\<exists>m \<in> set [''fix: late'', ''docs: readme'', ''refactor(api)!: drop v1'']. reBreaking (firstLineOf m)"
    by simp
  with suggestBump_precedence[of "[''fix: late'', ''docs: readme'', ''refactor(api)!: drop v1'']"]
  have "suggestBumpFromCommits [''fix: late'', ''docs: readme'', ''refactor(api)!: drop v1''] = Some ''major''"
    by (simp only: if_True)
  with a b show ?thesis by simp
qed

text \<open>
  C10. With a pre-release identifier that is \<open>null\<close>, not a string, empty or made of
  white space only, \<open>increaseVersion\<close> returns the bumped base version, which has no
  hyphen and so no pre-release segment. Any other identifier is trimmed and put in lower
  case first: the normalised identifier is what the current version is matched against
  and what the result carries, so the identifier and its normal form give the same
  result.
\<close>

theorem increaseVersion_preId:
  "((preId = Null \<or> preId = Undefined \<or> preId = NonString \<or>
       (\<exists>p. preId = Str p \<and> (\<forall>c \<in> set p. isSpace c)))
      \<longrightarrow> increaseVersion cv ty preId = bumpBase cv ty
          \<and> (\<forall>r. bumpBase cv ty = Some r \<longrightarrow> CHR ''-'' \<notin> set r))
   \<and> (\<forall>p. preId = Str p \<and> (\<exists>c \<in> set p. \<not> isSpace c) \<longrightarrow>
          increaseVersion cv ty preId =
            (case preMatch cv (toLowerCase (trim p)) of
               Some (g1, g2) \<Rightarrow>
                 map_option (\<lambda>num. g1 @ ''-'' @ toLowerCase (trim p) @ ''.'' @ showNum (succNum num))
                   (parseInt10 g2)
             | None \<Rightarrow> map_option (\<lambda>b. b @ ''-'' @ toLowerCase (trim p) @ ''.0'') (bumpBase cv ty))
          \<and> increaseVersion cv ty preId = increaseVersion cv ty (Str (toLowerCase (trim p))))"
proof (intro conjI impI allI)
  assume "preId = Null \<or> preId = Undefined \<or> preId = NonString \<or>
       (\<exists>p. preId = Str p \<and> (\<forall>c \<in> set p. isSpace c))"
  then show "increaseVersion cv ty preId = bumpBase cv ty"
    by (auto simp: increaseVersion_def trim_Nil_iff)
next
  fix r assume "bumpBase cv ty = Some r"
  then show "CHR ''-'' \<notin> set r" by (rule bumpBase_no_hyphen)
next
  fix p assume a: "preId = Str p \<and> (\<exists>c \<in> set p. \<not> isSpace c)"
  then have ne: "trim p \<noteq> []" "p \<noteq> []" by (auto simp: trim_Nil_iff)
  with a show "increaseVersion cv ty preId =
            (case preMatch cv (toLowerCase (trim p)) of
               Some (g1, g2) \<Rightarrow>
                 map_option (\<lambda>num. g1 @ ''-'' @ toLowerCase (trim p) @ ''.'' @ showNum (succNum num))
                   (parseInt10 g2)
             | None \<Rightarrow> map_option (\<lambda>b. b @ ''-'' @ toLowerCase (trim p) @ ''.0'') (bumpBase cv ty))"
    by (simp add: increaseVersion_def Let_def)
next
  fix p assume a: "preId = Str p \<and> (\<exists>c \<in> set p. \<not> isSpace c)"
  then have ne: "trim p \<noteq> []" "p \<noteq> []" by (auto simp: trim_Nil_iff)
  define n where "n = toLowerCase (trim p)"
  have nf: "trim n = n" "toLowerCase n = n"
    by (simp_all add: n_def normalise_fixed toLowerCase_idem)
  from ne have nne: "n \<noteq> []" by (simp add: n_def toLowerCase_def)
  have "increaseVersion cv ty (Str p) = increaseVersion cv ty (Str n)"
    using ne nne nf by (simp add: increaseVersion_def Let_def n_def[symmetric])
  with a show "increaseVersion cv ty preId = increaseVersion cv ty (Str (toLowerCase (trim p)))"
    by (simp add: n_def)
qed

theorem increaseVersion_preId_witness:
  "list_all isSpace ''  ''
   \<and> increaseVersion ''1.2.3'' ''minor'' (Str ''  '') = Some ''1.3.0''
   \<and> \<not> list_all isSpace '' Beta ''
   \<and> increaseVersion ''1.2.4-BETA.9'' ''patch'' (Str '' Beta '') = Some ''1.2.4-beta.10''"
proof -
  have sp: "\<forall>c \<in> set ''  ''. isSpace c" by (simp add: isSpace_def code_def)
  have ns: "\<exists>c \<in> set '' Beta ''. \<not> isSpace c" by (simp add: isSpace_def code_def)
  have b: "bumpBase ''1.2.3'' ''minor'' = Some ''1.3.0''" by code_simp
  have n: "increaseVersion ''1.2.4-BETA.9'' ''patch'' (Str (toLowerCase (trim '' Beta ''))) = Some ''1.2.4-beta.10''"
    by code_simp
  have "increaseVersion ''1.2.3'' ''minor'' (Str ''  '') = bumpBase ''1.2.3'' ''minor''"
    using increaseVersion_preId[of "Str ''  ''" "''1.2.3''" "''minor''"] sp by blast
  with b have one: "increaseVersion ''1.2.3'' ''minor'' (Str ''  '') = Some ''1.3.0''" by simp
  have "increaseVersion ''1.2.4-BETA.9'' ''patch'' (Str '' Beta '') =
        increaseVersion ''1.2.4-BETA.9'' ''patch'' (Str (toLowerCase (trim '' Beta '')))"
    using increaseVersion_preId[of "Str '' Beta ''" "''1.2.4-BETA.9''" "''patch''"] ns by blast
  with n have two: "increaseVersion ''1.2.4-BETA.9'' ''patch'' (Str '' Beta '') = Some ''1.2.4-beta.10''"
    by simp
  from sp one ns two show ?thesis by (simp add: list_all_iff)
qed

section \<open>Properties of config.js\<close>

lemma loadFromFile_silent: "\<exists>j. loadFromFile P cwd explicitPath tr = (Inr j, tr)"
  unfolding loadFromFile_def
  by (auto split: found.split sum.split simp: ret_def throw_def catch_def)

lemma loadFromFile_missing:
  assumes "explicitPath = Some p" and "p \<noteq> []"
    and "\<not> existsSync P (if isAbsolute P p then p else pathJoin P cwd p)"
  shows "loadFromFile P cwd explicitPath tr = (Inr (JObj []), tr)"
proof -
  from assms have "findConfigFile P cwd explicitPath = NotFound"
    by (auto simp: findConfigFile_def Let_def split: if_splits)
  then show ?thesis by (simp add: loadFromFile_def ret_def)
qed

lemma loadFromFile_unreadable:
  assumes "findConfigFile P cwd explicitPath = FoundPath q"
    and "isl (readFileSync P q) \<or> isl (jsonParse P (projr (readFileSync P q)))"
  shows "loadFromFile P cwd explicitPath tr = (Inr (JObj []), tr)"
proof (cases "readFileSync P q")
  case (Inl e)
  with assms show ?thesis by (simp add: loadFromFile_def ret_def throw_def catch_def)
next
  case (Inr content)
  with assms have "isl (jsonParse P content)" by simp
  then obtain e where "jsonParse P content = Inl e" by (cases "jsonParse P content") auto
  with assms Inr show ?thesis by (simp add: loadFromFile_def ret_def throw_def catch_def)
qed

lemma deepMerge_empty_file: "deepMerge getDefaults (JObj []) = getDefaults"
  by (simp add: getDefaults_def)

lemma loadConfig_silent: "snd (loadConfig P cwd args tr) = tr"
proof -
  obtain j where "loadFromFile P cwd (if isSet (p_config (parseArgv args)) then p_config (parseArgv args) else None) tr
      = (Inr j, tr)"
    using loadFromFile_silent by blast
  then show ?thesis
    by (cases j) (simp_all add: loadConfig_def Let_def bind_def ret_def throw_def)
qed

lemma loadConfig_fails_iff:
  "isl (fst (loadConfig P cwd args tr)) \<longleftrightarrow>
     fst (loadFromFile P cwd (if isSet (p_config (parseArgv args)) then p_config (parseArgv args) else None) tr)
       = Inr JNull"
proof -
  obtain j where "loadFromFile P cwd (if isSet (p_config (parseArgv args)) then p_config (parseArgv args) else None) tr
      = (Inr j, tr)"
    using loadFromFile_silent by blast
  then show ?thesis
    by (cases j) (simp_all add: loadConfig_def Let_def bind_def ret_def throw_def)
qed

text \<open>
  C5. The specification has configuration loading fail when the file named by \<open>--config\<close>
  does not exist, and warn when a file that is found cannot be parsed. It does neither: for
  the missing file \<open>loadFromFile\<close> returns the empty configuration and \<open>loadConfig\<close>
  succeeds; with a \<open>.reliz.json\<close> that is no JSON, \<open>loadConfig\<close> returns what it returns
  without any file, and it has printed nothing.
\<close>

theorem loadFromFile_missing_explicit_counterexample:
  "loadFromFile (examplePlatform []) ''/repo'' (Some ''missing.json'') [] = (Inr (JObj []), [])
   \<and> \<not> isl (fst (loadConfig (examplePlatform []) ''/repo'' [''--config'', ''missing.json''] []))
   \<and> isl (jsonParse (examplePlatform [(''.reliz.json'', ''{broken'')]) ''{broken'')
   \<and> loadConfig (examplePlatform [(''.reliz.json'', ''{broken'')]) ''/repo'' [''patch''] []
       = loadConfig (examplePlatform []) ''/repo'' [''patch''] []
   \<and> snd (loadConfig (examplePlatform [(''.reliz.json'', ''{broken'')]) ''/repo'' [''patch''] []) = []
   \<and> \<not> isl (fst (loadConfig (examplePlatform [(''.reliz.json'', ''{broken'')]) ''/repo'' [''patch''] []))"
proof -
  have 1: "loadFromFile (examplePlatform []) ''/repo'' (Some ''missing.json'') [] = (Inr (JObj []), [])"
    by code_simp
  have 2: "\<not> isl (fst (loadConfig (examplePlatform []) ''/repo'' [''--config'', ''missing.json''] []))"
    by code_simp
  have 3: "isl (jsonParse (examplePlatform [(''.reliz.json'', ''{broken'')]) ''{broken'')"
    by code_simp
  have 4: "loadConfig (examplePlatform [(''.reliz.json'', ''{broken'')]) ''/repo'' [''patch''] []
       = loadConfig (examplePlatform []) ''/repo'' [''patch''] []"
    by code_simp
  have 5: "snd (loadConfig (examplePlatform [(''.reliz.json'', ''{broken'')]) ''/repo'' [''patch''] []) = []"
    by code_simp
  have 6: "\<not> isl (fst (loadConfig (examplePlatform [(''.reliz.json'', ''{broken'')]) ''/repo'' [''patch''] []))"
    by code_simp
  from 1 2 3 4 5 6 show ?thesis by (intro conjI)
qed

text \<open>
  C5, as the code has it. \<open>loadFromFile\<close> never fails and prints nothing. For an
  explicitly named file that does not exist it returns the empty configuration, and so it
  does for a file found that cannot be read or whose text cannot be parsed; merged into
  the defaults, the empty configuration leaves the defaults. \<open>loadConfig\<close> prints nothing
  either, and it fails only on a file whose JSON is \<open>null\<close>.
\<close>

theorem loadFromFile_degrades:
  "(\<exists>j. loadFromFile P cwd explicitPath tr = (Inr j, tr))
   \<and> (\<forall>p. explicitPath = Some p \<and> p \<noteq> [] \<and>
          \<not> existsSync P (if isAbsolute P p then p else pathJoin P cwd p)
          \<longrightarrow> loadFromFile P cwd explicitPath tr = (Inr (JObj []), tr))
   \<and> (\<forall>q. findConfigFile P cwd explicitPath = FoundPath q \<and>
          (isl (readFileSync P q) \<or> isl (jsonParse P (projr (readFileSync P q))))
          \<longrightarrow> loadFromFile P cwd explicitPath tr = (Inr (JObj []), tr))
   \<and> deepMerge getDefaults (JObj []) = getDefaults
   \<and> snd (loadConfig P cwd args tr) = tr
   \<and> (isl (fst (loadConfig P cwd args tr)) \<longleftrightarrow>
        fst (loadFromFile P cwd (if isSet (p_config (parseArgv args)) then p_config (parseArgv args) else None) tr)
          = Inr JNull)"
proof -
  have missing: "\<forall>p. explicitPath = Some p \<and> p \<noteq> [] \<and>
          \<not> existsSync P (if isAbsolute P p then p else pathJoin P cwd p)
          \<longrightarrow> loadFromFile P cwd explicitPath tr = (Inr (JObj []), tr)"
    by (intro allI impI, elim conjE) (rule loadFromFile_missing)
  have unreadable: "\<forall>q. findConfigFile P cwd explicitPath = FoundPath q \<and>
          (isl (readFileSync P q) \<or> isl (jsonParse P (projr (readFileSync P q))))
          \<longrightarrow> loadFromFile P cwd explicitPath tr = (Inr (JObj []), tr)"
    by (intro allI impI, elim conjE) (rule loadFromFile_unreadable)
  show ?thesis
    by (rule conjI[OF loadFromFile_silent conjI[OF missing conjI[OF unreadable
          conjI[OF deepMerge_empty_file conjI[OF loadConfig_silent loadConfig_fails_iff]]]]])
qed

theorem loadFromFile_degrades_witness:
  "\<not> existsSync (examplePlatform []) ''/repo/missing.json''
   \<and> loadFromFile (examplePlatform []) ''/repo'' (Some ''missing.json'') [] = (Inr (JObj []), [])
   \<and> findConfigFile (examplePlatform [(''.reliz.json'', ''{broken'')]) ''/repo'' None = FoundPath ''/repo/.reliz.json''
   \<and> isl (jsonParse (examplePlatform [(''.reliz.json'', ''{broken'')])
             (projr (readFileSync (examplePlatform [(''.reliz.json'', ''{broken'')]) ''/repo/.reliz.json'')))
   \<and> loadFromFile (examplePlatform [(''.reliz.json'', ''{broken'')]) ''/repo'' None [] = (Inr (JObj []), [])"
proof -
  have abs: "\<not> isAbsolute (examplePlatform []) ''missing.json''" by code_simp
  have j: "pathJoin (examplePlatform []) ''/repo'' ''missing.json'' = ''/repo/missing.json''" by code_simp
  have ne: "\<not> existsSync (examplePlatform []) ''/repo/missing.json''" by code_simp
  have f: "findConfigFile (examplePlatform [(''.reliz.json'', ''{broken'')]) ''/repo'' None = FoundPath ''/repo/.reliz.json''"
    by code_simp
  have b: "isl (jsonParse (examplePlatform [(''.reliz.json'', ''{broken'')])
             (projr (readFileSync (examplePlatform [(''.reliz.json'', ''{broken'')]) ''/repo/.reliz.json'')))"
    by code_simp
  have one: "loadFromFile (examplePlatform []) ''/repo'' (Some ''missing.json'') [] = (Inr (JObj []), [])"
    using loadFromFile_degrades[of "examplePlatform []" "''/repo''" "Some ''missing.json''" "[]"] abs j ne
    by simp
  have two: "loadFromFile (examplePlatform [(''.reliz.json'', ''{broken'')]) ''/repo'' None [] = (Inr (JObj []), [])"
    using loadFromFile_degrades[of "examplePlatform [(''.reliz.json'', ''{broken'')]" "''/repo''" None "[]"] f b
    by blast
  from ne one f b two show ?thesis by (intro conjI)
qed

text \<open>
  C6. A value on the command line is meant to win over the value of the configuration
  file. For \<open>dryRun\<close> it does not: with \<open>"dryRun": false\<close> in \<open>.reliz.json\<close> and
  \<open>--dry-run\<close> on the command line, \<open>loadConfig\<close> returns the option \<open>dryRun\<close> as true, but
  \<open>cli.js\<close> reads \<open>config.dryRun ?? argv.dryRun\<close>, which is the \<open>false\<close> of the file: the run
  is not a dry run.
\<close>

theorem dryRun_flag_loses_to_file:
  "(case fst (loadConfig (examplePlatform [(''.reliz.json'', ''{\"dryRun\": false}'')]) ''/repo''
               [''patch'', ''--dry-run''] []) of
      Inr (config, argv) \<Rightarrow> argv_dryRun argv \<and> \<not> effectiveDryRun config argv
    | Inl e \<Rightarrow> False)"
  by code_simp

section \<open>Properties of gitFlow.js\<close>

lemma pushReleaseBranch_ok:
  assumes "\<not> isl (orc (tr @ [Log ''Pushing release branch...'']) (Exec (''git push origin HEAD'' @ pushSuffix)))"
  shows "pushReleaseBranch orc pushSuffix releaseBranch tr =
           (Inr (), tr @ [Log ''Pushing release branch...'', Did (Exec (''git push origin HEAD'' @ pushSuffix))])"
proof -
  from assms obtain out where
    "orc (tr @ [Log ''Pushing release branch...'']) (Exec (''git push origin HEAD'' @ pushSuffix)) = Inr out"
    by (cases "orc (tr @ [Log ''Pushing release branch...'']) (Exec (''git push origin HEAD'' @ pushSuffix))") auto
  then show ?thesis
    by (simp add: pushReleaseBranch_def andThen_def bind_def catch_def emit_def execSync_def ret_def)
qed

lemma pushReleaseBranch_rethrows:
  assumes "isl (orc (tr @ [Log ''Pushing release branch...'']) (Exec (''git push origin HEAD'' @ pushSuffix)))"
    and "\<not> includes_js (''Command failed: git push origin HEAD'' @ pushSuffix) ''non-fast-forward''"
  shows "pushReleaseBranch orc pushSuffix releaseBranch tr =
           (Inl (''Command failed: git push origin HEAD'' @ pushSuffix),
            tr @ [Log ''Pushing release branch...'', Did (Exec (''git push origin HEAD'' @ pushSuffix))])"
proof -
  from assms(1) obtain err where
    "orc (tr @ [Log ''Pushing release branch...'']) (Exec (''git push origin HEAD'' @ pushSuffix)) = Inl err"
    by (cases "orc (tr @ [Log ''Pushing release branch...'']) (Exec (''git push origin HEAD'' @ pushSuffix))") auto
  with assms(2) show ?thesis
    by (simp add: pushReleaseBranch_def andThen_def bind_def catch_def emit_def execSync_def ret_def
        throw_def commandFailed_def)
qed

text \<open>
  C7. After a push of the release branch that the remote rejects, one rebase and one more
  push are meant to follow. They never do. The push runs with \<open>stdio: 'inherit'\<close>, so the
  message of the error is \<open>Command failed: \<close> and the command, without what git wrote; the
  test for \<open>non-fast-forward\<close> in that message fails (unless the push arguments of the
  configuration hold that text themselves), and the error is thrown again at once: the
  trace ends with the one push, whatever git answered.
\<close>

theorem pushReleaseBranch_never_retries:
  "\<not> includes_js (''Command failed: git push origin HEAD'' @ pushSuffix) ''non-fast-forward'' \<longrightarrow>
     (let push = Exec (''git push origin HEAD'' @ pushSuffix);
          t1 = tr @ [Log ''Pushing release branch...''];
          t2 = t1 @ [Did push]
      in
      (\<not> isl (orc t1 push) \<longrightarrow> pushReleaseBranch orc pushSuffix releaseBranch tr = (Inr (), t2))
      \<and> (isl (orc t1 push) \<longrightarrow>
            pushReleaseBranch orc pushSuffix releaseBranch tr =
              (Inl (''Command failed: git push origin HEAD'' @ pushSuffix), t2)))"
  using pushReleaseBranch_ok[of orc tr pushSuffix releaseBranch]
    pushReleaseBranch_rethrows[of orc tr pushSuffix releaseBranch]
  by (simp add: Let_def)

theorem pushReleaseBranch_never_retries_witness:
  "\<not> includes_js ''Command failed: git push origin HEAD --follow-tags'' ''non-fast-forward''
   \<and> rejectFirstPush [Log ''Pushing release branch...''] (Exec ''git push origin HEAD --follow-tags'')
       = Inl ''! [rejected] HEAD -> release/1.2.4 (non-fast-forward)''
   \<and> pushReleaseBranch rejectFirstPush '' --follow-tags'' ''release/1.2.4'' []
       = (Inl ''Command failed: git push origin HEAD --follow-tags'',
          [Log ''Pushing release branch...'', Did (Exec ''git push origin HEAD --follow-tags'')])
   \<and> fst (run (exampleWorld [] ''develop'' rejectFirstPush) ''/repo''
            (fst (invocation (examplePlatform []) [''patch'', ''--ci'']))
            (snd (invocation (examplePlatform []) [''patch'', ''--ci''])))
       = Exited 1
   \<and> last (snd (run (exampleWorld [] ''develop'' rejectFirstPush) ''/repo''
            (fst (invocation (examplePlatform []) [''patch'', ''--ci'']))
            (snd (invocation (examplePlatform []) [''patch'', ''--ci'']))))
       = Err ''Error: Command failed: git push origin HEAD --follow-tags''
   \<and> Did (Exec ''git pull --rebase origin release/1.2.4'')
       \<notin> set (snd (run (exampleWorld [] ''develop'' rejectFirstPush) ''/repo''
            (fst (invocation (examplePlatform []) [''patch'', ''--ci'']))
            (snd (invocation (examplePlatform []) [''patch'', ''--ci'']))))"
proof -
  have m: "\<not> includes_js (''Command failed: git push origin HEAD'' @ '' --follow-tags'') ''non-fast-forward''"
    by code_simp
  have a: "rejectFirstPush ([] @ [Log ''Pushing release branch...''])
             (Exec (''git push origin HEAD'' @ '' --follow-tags''))
           = Inl ''! [rejected] HEAD -> release/1.2.4 (non-fast-forward)''"
    by code_simp
  then have i: "isl (rejectFirstPush ([] @ [Log ''Pushing release branch...''])
             (Exec (''git push origin HEAD'' @ '' --follow-tags'')))"
    by simp
  have "pushReleaseBranch rejectFirstPush '' --follow-tags'' ''release/1.2.4'' []
       = (Inl (''Command failed: git push origin HEAD'' @ '' --follow-tags''),
          ([] @ [Log ''Pushing release branch...''])
            @ [Did (Exec (''git push origin HEAD'' @ '' --follow-tags''))])"
    using pushReleaseBranch_never_retries[where pushSuffix = "'' --follow-tags''" and orc = rejectFirstPush
        and tr = "[]" and releaseBranch = "''release/1.2.4''"] m i
    by (simp only: Let_def) blast
  then have r: "pushReleaseBranch rejectFirstPush '' --follow-tags'' ''release/1.2.4'' []
       = (Inl ''Command failed: git push origin HEAD --follow-tags'',
          [Log ''Pushing release branch...'', Did (Exec ''git push origin HEAD --follow-tags'')])"
    by simp
  have 1: "fst (run (exampleWorld [] ''develop'' rejectFirstPush) ''/repo''
            (fst (invocation (examplePlatform []) [''patch'', ''--ci'']))
            (snd (invocation (examplePlatform []) [''patch'', ''--ci''])))
       = Exited 1"
    by code_simp
  have 2: "last (snd (run (exampleWorld [] ''develop'' rejectFirstPush) ''/repo''
            (fst (invocation (examplePlatform []) [''patch'', ''--ci'']))
            (snd (invocation (examplePlatform []) [''patch'', ''--ci'']))))
       = Err ''Error: Command failed: git push origin HEAD --follow-tags''"
    by code_simp
  have 3: "Did (Exec ''git pull --rebase origin release/1.2.4'')
       \<notin> set (snd (run (exampleWorld [] ''develop'' rejectFirstPush) ''/repo''
            (fst (invocation (examplePlatform []) [''patch'', ''--ci'']))
            (snd (invocation (examplePlatform []) [''patch'', ''--ci'']))))"
    by code_simp
  from m a r 1 2 3 show ?thesis by simp
qed

text \<open>
  C8. \<open>syncBranches\<close> is meant never to force the local branch that is checked out. It
  spares \<open>develop\<close> when \<open>develop\<close> is checked out, but it forces \<open>main\<close> whatever the
  current branch is: from \<open>main\<close> (allowed by \<open>allowReleaseFrom\<close>) it runs
  \<open>git branch --force main origin/main\<close>, in the function and in the whole run.
\<close>

theorem syncBranches_forces_checked_out_main:
  "syncBranches allSucceed (exampleContext ''main'') [] =
     (Inr (),
      [Log ''Fetching all branches...'', Did (Exec ''git fetch --all --prune''),
       Log ''Pulling main...'', Did (Exec ''git fetch origin main''),
       Did (Exec ''git branch --force main origin/main''),
       Log ''Pulling develop...'', Did (Exec ''git fetch origin develop''),
       Did (Exec ''git branch --force develop origin/develop''),
       Log ''Branches are up to date.''])
   \<and> Did (Exec ''git branch --force main origin/main'')
       \<in> set (snd (run (exampleWorld [(''.reliz.json'', ''{\"allowReleaseFrom\": [\"main\"]}'')] ''main'' allSucceed)
                      ''/repo''
                      (fst (invocation (examplePlatform [(''.reliz.json'', ''{\"allowReleaseFrom\": [\"main\"]}'')])
                              [''patch'', ''--ci'']))
                      (snd (invocation (examplePlatform [(''.reliz.json'', ''{\"allowReleaseFrom\": [\"main\"]}'')])
                              [''patch'', ''--ci'']))))"
proof -
  have 1: "syncBranches allSucceed (exampleContext ''main'') [] =
     (Inr (),
      [Log ''Fetching all branches...'', Did (Exec ''git fetch --all --prune''),
       Log ''Pulling main...'', Did (Exec ''git fetch origin main''),
       Did (Exec ''git branch --force main origin/main''),
       Log ''Pulling develop...'', Did (Exec ''git fetch origin develop''),
       Did (Exec ''git branch --force develop origin/develop''),
       Log ''Branches are up to date.''])"
    by code_simp
  have 2: "Did (Exec ''git branch --force main origin/main'')
       \<in> set (snd (run (exampleWorld [(''.reliz.json'', ''{\"allowReleaseFrom\": [\"main\"]}'')] ''main'' allSucceed)
                      ''/repo''
                      (fst (invocation (examplePlatform [(''.reliz.json'', ''{\"allowReleaseFrom\": [\"main\"]}'')])
                              [''patch'', ''--ci'']))
                      (snd (invocation (examplePlatform [(''.reliz.json'', ''{\"allowReleaseFrom\": [\"main\"]}'')])
                              [''patch'', ''--ci'']))))"
    by code_simp
  from 1 2 show ?thesis by (intro conjI)
qed

section \<open>Properties of the effects\<close>

lemma performed_append [simp]: "performed (tr @ tr') = performed tr @ performed tr'"
  by (simp add: performed_def)

lemma performed_simps [simp]:
  "performed [] = []" "performed (Did a # tr) = a # performed tr" "performed (Log s # tr) = performed tr"
  "performed (Warn s # tr) = performed tr" "performed (Err s # tr) = performed tr"
  by (simp_all add: performed_def)

























lemma fails_bind: "fails m \<Longrightarrow> fails (bind m f)"
  unfolding fails_def bind_def
  by (auto split: prod.split sum.split) (metis fst_conv sum.disc(2))

lemma fails_andThen: "fails m \<Longrightarrow> fails (andThen m k)"
  unfolding andThen_def by (rule fails_bind)


lemma endsWithOne_throw: "endsWithOne (throw e)"
  by (simp add: endsWithOne_def throw_def)









lemma bind_returns:
  "fst (bind m f tr) = Inr y \<Longrightarrow> \<exists>x tr1. m tr = (Inr x, tr1) \<and> bind m f tr = f x tr1"
  by (cases "m tr") (auto simp: bind_def split: sum.splits)





































lemma effectiveDryRun_flag:
  "nullish (getProp (Some config) ''dryRun'') \<Longrightarrow> effectiveDryRun config (argv\<lparr>argv_dryRun := b\<rparr>) = b"
  by (auto simp: nullish_def effectiveDryRun_def)

lemma neverFails_ret: "neverFails (ret x)"
  by (simp add: neverFails_def ret_def)

lemma neverFails_emit: "neverFails (emit ev)"
  by (simp add: neverFails_def emit_def)

lemma neverFails_bind: "neverFails m \<Longrightarrow> (\<And>x. neverFails (f x)) \<Longrightarrow> neverFails (bind m f)"
  unfolding neverFails_def bind_def
  by (auto split: prod.split sum.split) (metis fst_conv sum.disc(1))

lemma neverFails_andThen: "neverFails m \<Longrightarrow> neverFails k \<Longrightarrow> neverFails (andThen m k)"
  unfolding andThen_def by (rule neverFails_bind)

lemma neverFails_catch: "(\<And>e. neverFails (h e)) \<Longrightarrow> neverFails (catch m h)"
  unfolding neverFails_def catch_def
  by (auto split: prod.split sum.split)

lemma neverFails_forEach: "(\<And>x. neverFails (f x)) \<Longrightarrow> neverFails (forEach xs f)"
  by (induction xs) (simp_all add: neverFails_ret neverFails_andThen)

lemma neverFails_runPluginLifecycle: "neverFails (runPluginLifecycle orc plugins method)"
  unfolding runPluginLifecycle_def
  by (intro neverFails_forEach neverFails_catch neverFails_emit)

lemma neverFails_githubStep: "neverFails (githubStep W context)"
  unfolding githubStep_def Let_def
  by (auto intro!: neverFails_catch neverFails_andThen neverFails_emit neverFails_ret)

lemma neverFails_gitlabStep: "neverFails (gitlabStep W context url)"
  unfolding gitlabStep_def Let_def
  by (auto intro!: neverFails_catch neverFails_andThen neverFails_emit neverFails_ret)

lemma githubStep_failure:
  assumes "truthy (getProp (getProp (Some (c_config context)) ''github'') ''release'')"
    and "createGitHubRelease (w_outside W) (w_texts W) (w_platform W) (c_tagName context)
           (''Release '' @ c_version context) (getProp (Some (c_config context)) ''github'') False tr = (Inl e, tr')"
  shows "githubStep W context tr = (Inr None, tr' @ [Warn (''GitHub release failed: '' @ e)])"
  using assms by (simp add: githubStep_def Let_def catch_def andThen_def bind_def emit_def ret_def)

lemma gitlabStep_failure:
  assumes "truthy (getProp (getProp (Some (c_config context)) ''gitlab'') ''release'')"
    and "createGitLabRelease (w_outside W) (w_texts W) (w_platform W) (c_tagName context)
           (''Release '' @ c_version context) (getProp (Some (c_config context)) ''gitlab'') False tr = (Inl e, tr')"
  shows "gitlabStep W context url tr = (Inr url, tr' @ [Warn (''GitLab release failed: '' @ e)])"
  using assms by (simp add: gitlabStep_def Let_def catch_def andThen_def bind_def emit_def ret_def)

lemma publication_goes_on:
  assumes "(if truthy (getProp (getProp (Some (c_config context)) ''npm'') ''publish'')
            then npmPublish (w_outside W) (w_platform W) cwd (getProp (Some (c_config context)) ''npm'') False
            else ret ()) tr = (Inr (), t0)"
    and "githubStep W context t0 = (Inr url1, t1)"
    and "gitlabStep W context url1 t1 = (Inr url2, t2)"
    and "runPluginLifecycle (w_outside W) plugins ''release'' t2 = (Inr (), t3)"
    and "runHooks (w_outside W) (w_texts W) (getProp (getProp (Some (c_config context)) ''hooks'') ''afterRelease'')
           (contextScalars (context\<lparr>c_releaseUrl := url2\<rparr>)) False t3 = (Inr (), t4)"
  shows "publication W cwd plugins context tr =
           (Inr url2, snd (runPluginLifecycle (w_outside W) plugins ''afterRelease'' t4))"
proof -
  obtain r t5 where eq: "runPluginLifecycle (w_outside W) plugins ''afterRelease'' t4 = (r, t5)"
    by (cases "runPluginLifecycle (w_outside W) plugins ''afterRelease'' t4")
  have "\<not> isl (fst (runPluginLifecycle (w_outside W) plugins ''afterRelease'' t4))"
    using neverFails_runPluginLifecycle unfolding neverFails_def by blast
  with eq have "r = Inr ()" by (cases r) simp_all
  with eq assms show ?thesis
    by (simp add: publication_def Let_def andThen_def bind_def ret_def)
qed

lemma hook_failure_fatal:
  assumes "(if truthy (getProp (getProp (Some (c_config context)) ''npm'') ''publish'')
            then npmPublish (w_outside W) (w_platform W) cwd (getProp (Some (c_config context)) ''npm'') False
            else ret ()) tr = (Inr (), t0)"
    and "githubStep W context t0 = (Inr url1, t1)"
    and "gitlabStep W context url1 t1 = (Inr url2, t2)"
    and "runPluginLifecycle (w_outside W) plugins ''release'' t2 = (Inr (), t3)"
    and "runHooks (w_outside W) (w_texts W) (getProp (getProp (Some (c_config context)) ''hooks'') ''afterRelease'')
           (contextScalars (context\<lparr>c_releaseUrl := url2\<rparr>)) False t3 = (Inl e, t4)"
  shows "publication W cwd plugins context tr = (Inl e, t4)"
  using assms by (simp add: publication_def Let_def andThen_def bind_def ret_def)

lemma performed_forEach:
  assumes "\<And>x tr. f x tr = (Inr (), snd (f x tr)) \<and> performed (snd (f x tr)) = performed tr @ [g x]"
  shows "forEach xs f tr = (Inr (), snd (forEach xs f tr))
         \<and> performed (snd (forEach xs f tr)) = performed tr @ map g xs"
proof (induction xs arbitrary: tr)
  case Nil
  show ?case by (simp add: ret_def)
next
  case (Cons x xs)
  define t where "t = snd (f x tr)"
  from assms[of x tr] have 1: "f x tr = (Inr (), t)"
    and 2: "performed t = performed tr @ [g x]" unfolding t_def by simp_all
  have "forEach (x # xs) f tr = forEach xs f t"
    using 1 by (simp add: andThen_def bind_def)
  with Cons[of t] 2 show ?case by simp
qed

lemma performed_pluginCall:
  "catch (andThen (perform orc a) (ret ())) (\<lambda>e. emit (Warn (w e))) tr =
     (Inr (), snd (catch (andThen (perform orc a) (ret ())) (\<lambda>e. emit (Warn (w e))) tr))
   \<and> performed (snd (catch (andThen (perform orc a) (ret ())) (\<lambda>e. emit (Warn (w e))) tr)) = performed tr @ [a]"
  by (cases "orc tr a") (simp_all add: andThen_def bind_def catch_def perform_def ret_def emit_def)

lemma performed_runPluginLifecycle:
  "runPluginLifecycle orc plugins method tr =
     (Inr (), snd (runPluginLifecycle orc plugins method tr))
   \<and> performed (snd (runPluginLifecycle orc plugins method tr)) =
       performed tr @ map (\<lambda>pl. CallPlugin (pl_name pl) method) (filter (\<lambda>pl. method \<in> set (pl_methods pl)) plugins)"
  unfolding runPluginLifecycle_def
  by (rule performed_forEach) (rule performed_pluginCall)

lemma npm_failure_fatal:
  assumes "truthy (getProp (getProp (Some (c_config context)) ''npm'') ''publish'')"
    and "npmPublish (w_outside W) (w_platform W) cwd (getProp (Some (c_config context)) ''npm'') False tr = (Inl e, tr')"
  shows "publication W cwd plugins context tr = (Inl e, tr')"
  using assms by (simp add: publication_def Let_def andThen_def bind_def)

lemma chain_error_exits:
  assumes "preflight W cwd config argv [] = (Inr (Go plan), tr)"
    and "promiseChain W cwd config argv plan tr = (Inl e, tr')"
  shows "run W cwd config argv = (Exited 1, tr' @ [Err (''Error: '' @ e)])"
  using assms by (simp add: run_def)

lemma performed_forEach_ok:
  assumes "\<And>x tr t. f x tr = (Inr (), t) \<Longrightarrow> performed t = performed tr @ [g x]"
  shows "forEach xs f tr = (Inr (), t) \<Longrightarrow> performed t = performed tr @ map g xs"
proof (induction xs arbitrary: tr)
  case Nil
  then show ?case by (simp add: ret_def)
next
  case (Cons x xs)
  from Cons.prems have "fst (bind (f x) (\<lambda>_. forEach xs f) tr) = Inr ()" by (simp add: andThen_def)
  then have "\<exists>u t1. f x tr = (Inr u, t1) \<and> bind (f x) (\<lambda>_. forEach xs f) tr = forEach xs f t1"
    by (rule bind_returns)
  then obtain t1 where 1: "f x tr = (Inr (), t1)" and 2: "bind (f x) (\<lambda>_. forEach xs f) tr = forEach xs f t1"
    by auto
  from 2 Cons.prems have "forEach xs f t1 = (Inr (), t)" by (simp add: andThen_def)
  then have "performed t = performed t1 @ map g xs" by (rule Cons.IH)
  with assms[OF 1] show ?case by simp
qed

lemma performed_hook:
  "catch (andThen (execSync orc Inherit line) (ret ())) (\<lambda>e. throw (w e)) tr = (Inr (), t)
     \<Longrightarrow> performed t = performed tr @ [Exec line]"
  by (cases "orc tr (Exec line)")
     (auto simp: andThen_def bind_def catch_def execSync_def throw_def ret_def)

lemma performed_runHooks:
  "runHooks orc T commands scalars False tr = (Inr (), t) \<Longrightarrow>
     performed t = performed tr @ map (\<lambda>cmd. Exec (interpolate T cmd scalars)) (hookList commands)"
  unfolding runHooks_def Let_def if_False
  by (rule performed_forEach_ok[where f = "\<lambda>cmd. catch (andThen (execSync orc Inherit (interpolate T cmd scalars)) (ret ()))
                  (\<lambda>e. throw (''Hook failed: '' @ interpolate T cmd scalars @ ''. '' @ e))"])
     (rule performed_hook)

section \<open>The dry run\<close>




section \<open>The publication\<close>

text \<open>
  C9. The specification has every failure of the publication phase caught, that of
  \<open>npm publish\<close> included. \<open>cli.js\<close> calls \<open>npmPublish\<close> with no \<open>catch\<close> of its own: when
  the registry refuses, the error reaches the \<open>catch\<close> that ends the chain, the run prints
  \<open>Error:\<close> with the message and exits with code 1, and the GitHub release that is
  configured is never tried. With a registry that accepts, the same run goes on to the
  GitHub step and completes.
\<close>

theorem npm_failure_is_fatal_counterexample:
  "fst (run (exampleWorld publishingRepo ''develop'' npmFails) ''/repo''
          (fst (invocation (examplePlatform publishingRepo) [''patch'', ''--ci'']))
          (snd (invocation (examplePlatform publishingRepo) [''patch'', ''--ci''])))
     = Exited 1
   \<and> last (snd (run (exampleWorld publishingRepo ''develop'' npmFails) ''/repo''
          (fst (invocation (examplePlatform publishingRepo) [''patch'', ''--ci'']))
          (snd (invocation (examplePlatform publishingRepo) [''patch'', ''--ci'']))))
     = Err ''Error: Command failed: npm publish --tag latest''
   \<and> Warn ''GitHub token not found (GITHUB_TOKEN). Skipping GitHub release.''
       \<notin> set (snd (run (exampleWorld publishingRepo ''develop'' npmFails) ''/repo''
          (fst (invocation (examplePlatform publishingRepo) [''patch'', ''--ci'']))
          (snd (invocation (examplePlatform publishingRepo) [''patch'', ''--ci'']))))
   \<and> fst (run (exampleWorld publishingRepo ''develop'' allSucceed) ''/repo''
          (fst (invocation (examplePlatform publishingRepo) [''patch'', ''--ci'']))
          (snd (invocation (examplePlatform publishingRepo) [''patch'', ''--ci''])))
     = Completed
   \<and> Warn ''GitHub token not found (GITHUB_TOKEN). Skipping GitHub release.''
       \<in> set (snd (run (exampleWorld publishingRepo ''develop'' allSucceed) ''/repo''
          (fst (invocation (examplePlatform publishingRepo) [''patch'', ''--ci'']))
          (snd (invocation (examplePlatform publishingRepo) [''patch'', ''--ci'']))))"
proof -
  have 1: "fst (run (exampleWorld publishingRepo ''develop'' npmFails) ''/repo''
          (fst (invocation (examplePlatform publishingRepo) [''patch'', ''--ci'']))
          (snd (invocation (examplePlatform publishingRepo) [''patch'', ''--ci''])))
     = Exited 1"
    by code_simp
  have 2: "last (snd (run (exampleWorld publishingRepo ''develop'' npmFails) ''/repo''
          (fst (invocation (examplePlatform publishingRepo) [''patch'', ''--ci'']))
          (snd (invocation (examplePlatform publishingRepo) [''patch'', ''--ci'']))))
     = Err ''Error: Command failed: npm publish --tag latest''"
    by code_simp
  have 3: "Warn ''GitHub token not found (GITHUB_TOKEN). Skipping GitHub release.''
       \<notin> set (snd (run (exampleWorld publishingRepo ''develop'' npmFails) ''/repo''
          (fst (invocation (examplePlatform publishingRepo) [''patch'', ''--ci'']))
          (snd (invocation (examplePlatform publishingRepo) [''patch'', ''--ci'']))))"
    by code_simp
  have 4: "fst (run (exampleWorld publishingRepo ''develop'' allSucceed) ''/repo''
          (fst (invocation (examplePlatform publishingRepo) [''patch'', ''--ci'']))
          (snd (invocation (examplePlatform publishingRepo) [''patch'', ''--ci''])))
     = Completed"
    by code_simp
  have 5: "Warn ''GitHub token not found (GITHUB_TOKEN). Skipping GitHub release.''
       \<in> set (snd (run (exampleWorld publishingRepo ''develop'' allSucceed) ''/repo''
          (fst (invocation (examplePlatform publishingRepo) [''patch'', ''--ci'']))
          (snd (invocation (examplePlatform publishingRepo) [''patch'', ''--ci'']))))"
    by code_simp
  from 1 2 3 4 5 show ?thesis by (intro conjI)
qed

text \<open>
  C9, as the code has it. The GitHub step, the GitLab step and the plugin phases throw
  no error: a failure of the creation of a release is caught and printed as a warning,
  and \<open>releaseUrl\<close> is \<open>null\<close> after GitHub and what it was after GitLab. Whatever the two
  provider steps met, the pipeline goes on from the trace they left: the \<open>release\<close> phase of
  the plugins calls every plugin that has it, the \<open>afterRelease\<close> hooks run every command,
  the \<open>afterRelease\<close> phase of the plugins follows, and the publication returns the URL
  with no error, unless a hook fails. A failure of \<open>npm publish\<close> is not caught: it ends
  the publication with that error, and an error of the promise chain makes the run print
  it and exit with code 1.
\<close>

theorem publication_failures:
  "neverFails (githubStep W context) \<and> neverFails (gitlabStep W context url)
   \<and> neverFails (runPluginLifecycle orc plugins method)
   \<and> (\<forall>e tr'. truthy (getProp (getProp (Some (c_config context)) ''github'') ''release'') \<and>
         createGitHubRelease (w_outside W) (w_texts W) (w_platform W) (c_tagName context)
           (''Release '' @ c_version context) (getProp (Some (c_config context)) ''github'') False tr = (Inl e, tr')
         \<longrightarrow> githubStep W context tr = (Inr None, tr' @ [Warn (''GitHub release failed: '' @ e)]))
   \<and> (\<forall>e tr'. truthy (getProp (getProp (Some (c_config context)) ''gitlab'') ''release'') \<and>
         createGitLabRelease (w_outside W) (w_texts W) (w_platform W) (c_tagName context)
           (''Release '' @ c_version context) (getProp (Some (c_config context)) ''gitlab'') False tr = (Inl e, tr')
         \<longrightarrow> gitlabStep W context url tr = (Inr url, tr' @ [Warn (''GitLab release failed: '' @ e)]))
   \<and> (\<forall>t0 url1 t1 url2 t2 t3 t4.
         (if truthy (getProp (getProp (Some (c_config context)) ''npm'') ''publish'')
          then npmPublish (w_outside W) (w_platform W) cwd (getProp (Some (c_config context)) ''npm'') False
          else ret ()) tr = (Inr (), t0) \<and>
         githubStep W context t0 = (Inr url1, t1) \<and>
         gitlabStep W context url1 t1 = (Inr url2, t2) \<and>
         runPluginLifecycle (w_outside W) plugins ''release'' t2 = (Inr (), t3) \<and>
         runHooks (w_outside W) (w_texts W) (getProp (getProp (Some (c_config context)) ''hooks'') ''afterRelease'')
           (contextScalars (context\<lparr>c_releaseUrl := url2\<rparr>)) False t3 = (Inr (), t4)
         \<longrightarrow> publication W cwd plugins context tr =
               (Inr url2, snd (runPluginLifecycle (w_outside W) plugins ''afterRelease'' t4)))
   \<and> performed (snd (runPluginLifecycle orc plugins method tr)) =
        performed tr @ map (\<lambda>pl. CallPlugin (pl_name pl) method) (filter (\<lambda>pl. method \<in> set (pl_methods pl)) plugins)
   \<and> (\<forall>t. runHooks orc T commands scalars False tr = (Inr (), t)
         \<longrightarrow> performed t = performed tr @ map (\<lambda>cmd. Exec (interpolate T cmd scalars)) (hookList commands))
   \<and> (\<forall>e tr'. truthy (getProp (getProp (Some (c_config context)) ''npm'') ''publish'') \<and>
         npmPublish (w_outside W) (w_platform W) cwd (getProp (Some (c_config context)) ''npm'') False tr = (Inl e, tr')
         \<longrightarrow> publication W cwd plugins context tr = (Inl e, tr'))
   \<and> (\<forall>config argv plan e tr'. preflight W cwd config argv [] = (Inr (Go plan), tr) \<and>
         promiseChain W cwd config argv plan tr = (Inl e, tr')
         \<longrightarrow> run W cwd config argv = (Exited 1, tr' @ [Err (''Error: '' @ e)]))"
proof -
  have github: "\<forall>e tr'. truthy (getProp (getProp (Some (c_config context)) ''github'') ''release'') \<and>
         createGitHubRelease (w_outside W) (w_texts W) (w_platform W) (c_tagName context)
           (''Release '' @ c_version context) (getProp (Some (c_config context)) ''github'') False tr = (Inl e, tr')
         \<longrightarrow> githubStep W context tr = (Inr None, tr' @ [Warn (''GitHub release failed: '' @ e)])"
    by (intro allI impI, elim conjE) (rule githubStep_failure)
  have gitlab: "\<forall>e tr'. truthy (getProp (getProp (Some (c_config context)) ''gitlab'') ''release'') \<and>
         createGitLabRelease (w_outside W) (w_texts W) (w_platform W) (c_tagName context)
           (''Release '' @ c_version context) (getProp (Some (c_config context)) ''gitlab'') False tr = (Inl e, tr')
         \<longrightarrow> gitlabStep W context url tr = (Inr url, tr' @ [Warn (''GitLab release failed: '' @ e)])"
    by (intro allI impI, elim conjE) (rule gitlabStep_failure)
  have goes_on: "\<forall>t0 url1 t1 url2 t2 t3 t4.
         (if truthy (getProp (getProp (Some (c_config context)) ''npm'') ''publish'')
          then npmPublish (w_outside W) (w_platform W) cwd (getProp (Some (c_config context)) ''npm'') False
          else ret ()) tr = (Inr (), t0) \<and>
         githubStep W context t0 = (Inr url1, t1) \<and>
         gitlabStep W context url1 t1 = (Inr url2, t2) \<and>
         runPluginLifecycle (w_outside W) plugins ''release'' t2 = (Inr (), t3) \<and>
         runHooks (w_outside W) (w_texts W) (getProp (getProp (Some (c_config context)) ''hooks'') ''afterRelease'')
           (contextScalars (context\<lparr>c_releaseUrl := url2\<rparr>)) False t3 = (Inr (), t4)
         \<longrightarrow> publication W cwd plugins context tr =
               (Inr url2, snd (runPluginLifecycle (w_outside W) plugins ''afterRelease'' t4))"
    by (intro allI impI, elim conjE) (rule publication_goes_on)
  have hooks: "\<forall>t. runHooks orc T commands scalars False tr = (Inr (), t)
         \<longrightarrow> performed t = performed tr @ map (\<lambda>cmd. Exec (interpolate T cmd scalars)) (hookList commands)"
    by (intro allI impI) (rule performed_runHooks)
  have npm: "\<forall>e tr'. truthy (getProp (getProp (Some (c_config context)) ''npm'') ''publish'') \<and>
         npmPublish (w_outside W) (w_platform W) cwd (getProp (Some (c_config context)) ''npm'') False tr = (Inl e, tr')
         \<longrightarrow> publication W cwd plugins context tr = (Inl e, tr')"
    by (intro allI impI, elim conjE) (rule npm_failure_fatal)
  have chain: "\<forall>config argv plan e tr'. preflight W cwd config argv [] = (Inr (Go plan), tr) \<and>
         promiseChain W cwd config argv plan tr = (Inl e, tr')
         \<longrightarrow> run W cwd config argv = (Exited 1, tr' @ [Err (''Error: '' @ e)])"
    by (intro allI impI, elim conjE) (rule chain_error_exits)
  show ?thesis
    by (rule conjI[OF neverFails_githubStep conjI[OF neverFails_gitlabStep
          conjI[OF neverFails_runPluginLifecycle conjI[OF github conjI[OF gitlab conjI[OF goes_on
          conjI[OF performed_runPluginLifecycle[THEN conjunct2] conjI[OF hooks conjI[OF npm chain]]]]]]]]])
qed

theorem publication_failures_witness:
  "truthy (getProp (getProp (Some (c_config publishingContext)) ''github'') ''release'')
   \<and> createGitHubRelease (w_outside (tokenWorld githubFails)) (w_texts (tokenWorld githubFails))
        (w_platform (tokenWorld githubFails)) (c_tagName publishingContext)
        (''Release '' @ c_version publishingContext)
        (getProp (Some (c_config publishingContext)) ''github'') False []
       = (Inl ''GitHub API 401: Bad credentials'',
          [Did (Exec ''git remote get-url origin''), Did (CreateGitHubRelease ''acme/demo'' ''v1.2.4'')])
   \<and> githubStep (tokenWorld githubFails) publishingContext []
       = (Inr None,
          [Did (Exec ''git remote get-url origin''), Did (CreateGitHubRelease ''acme/demo'' ''v1.2.4''),
           Warn ''GitHub release failed: GitHub API 401: Bad credentials''])
   \<and> publication (tokenWorld githubFails) ''/repo'' [notifier] publishingContext []
       = (Inr (Some ''https://gitlab.com/acme/demo/-/releases/v1.2.4''),
          [Did (Exec ''git remote get-url origin''), Did (CreateGitHubRelease ''acme/demo'' ''v1.2.4''),
           Warn ''GitHub release failed: GitHub API 401: Bad credentials'',
           Did (Exec ''git remote get-url origin''), Did (CreateGitLabRelease ''acme/demo'' ''v1.2.4''),
           Log ''GitLab release created.'',
           Did (CallPlugin ''notifier'' ''release''), Did (Exec ''echo released''),
           Did (CallPlugin ''notifier'' ''afterRelease'')])"
proof -
  define W where "W = tokenWorld githubFails"
  define t1 where "t1 = [Did (Exec ''git remote get-url origin''), Did (CreateGitHubRelease ''acme/demo'' ''v1.2.4''),
           Warn ''GitHub release failed: GitHub API 401: Bad credentials'']"
  define t2 where "t2 = t1 @ [Did (Exec ''git remote get-url origin''), Did (CreateGitLabRelease ''acme/demo'' ''v1.2.4''),
           Log ''GitLab release created.'']"
  define t3 where "t3 = t2 @ [Did (CallPlugin ''notifier'' ''release'')]"
  define t4 where "t4 = t3 @ [Did (Exec ''echo released'')]"
  have t: "truthy (getProp (getProp (Some (c_config publishingContext)) ''github'') ''release'')"
    by code_simp
  have f: "createGitHubRelease (w_outside W) (w_texts W) (w_platform W) (c_tagName publishingContext)
        (''Release '' @ c_version publishingContext)
        (getProp (Some (c_config publishingContext)) ''github'') False []
       = (Inl ''GitHub API 401: Bad credentials'',
          [Did (Exec ''git remote get-url origin''), Did (CreateGitHubRelease ''acme/demo'' ''v1.2.4'')])"
    unfolding W_def by code_simp
  have n: "(if truthy (getProp (getProp (Some (c_config publishingContext)) ''npm'') ''publish'')
          then npmPublish (w_outside W) (w_platform W) ''/repo'' (getProp (Some (c_config publishingContext)) ''npm'') False
          else ret ()) [] = (Inr (), [])"
    unfolding W_def by code_simp
  have "githubStep W publishingContext []
       = (Inr None,
          [Did (Exec ''git remote get-url origin''), Did (CreateGitHubRelease ''acme/demo'' ''v1.2.4'')]
          @ [Warn (''GitHub release failed: '' @ ''GitHub API 401: Bad credentials'')])"
    by (rule publication_failures[of W publishingContext _ _ _ _ "[]", THEN conjunct2, THEN conjunct2,
          THEN conjunct2, THEN conjunct1, rule_format, OF conjI[OF t f]])
  then have g: "githubStep W publishingContext [] = (Inr None, t1)"
    unfolding t1_def by simp
  have l: "gitlabStep W publishingContext None t1 = (Inr (Some ''https://gitlab.com/acme/demo/-/releases/v1.2.4''), t2)"
    unfolding W_def t1_def t2_def by code_simp
  have p: "runPluginLifecycle (w_outside W) [notifier] ''release'' t2 = (Inr (), t3)"
    unfolding W_def t1_def t2_def t3_def by code_simp
  have h: "runHooks (w_outside W) (w_texts W)
             (getProp (getProp (Some (c_config publishingContext)) ''hooks'') ''afterRelease'')
             (contextScalars (publishingContext\<lparr>c_releaseUrl := Some ''https://gitlab.com/acme/demo/-/releases/v1.2.4''\<rparr>))
             False t3 = (Inr (), t4)"
    unfolding W_def t1_def t2_def t3_def t4_def by code_simp
  have a: "snd (runPluginLifecycle (w_outside W) [notifier] ''afterRelease'' t4)
      = t4 @ [Did (CallPlugin ''notifier'' ''afterRelease'')]"
    unfolding W_def t1_def t2_def t3_def t4_def by code_simp
  have "publication W ''/repo'' [notifier] publishingContext []
      = (Inr (Some ''https://gitlab.com/acme/demo/-/releases/v1.2.4''),
         snd (runPluginLifecycle (w_outside W) [notifier] ''afterRelease'' t4))"
    by (rule publication_failures[of W publishingContext _ _ "[notifier]" _ "[]" "''/repo''",
          THEN conjunct2, THEN conjunct2, THEN conjunct2, THEN conjunct2, THEN conjunct2, THEN conjunct1,
          rule_format, OF conjI[OF n conjI[OF g conjI[OF l conjI[OF p h]]]]])
  with a have r: "publication W ''/repo'' [notifier] publishingContext []
      = (Inr (Some ''https://gitlab.com/acme/demo/-/releases/v1.2.4''),
         t4 @ [Did (CallPlugin ''notifier'' ''afterRelease'')])"
    by simp
  from t f g r show ?thesis
    unfolding W_def t1_def t2_def t3_def t4_def by simp
qed

end
